theory Spec2Isabelle
  imports Complex_Main "HOL-Library.Sublist" "HOL-Library.Log_Nat"
begin

section \<open>Python primitives used by the backend\<close>

text \<open>
  Python \<open>int\<close> is \<open>int\<close> and \<open>Optional[T]\<close> is \<open>T option\<close>. A Python \<open>str\<close> is a
  \<open>string\<close>, a list of characters with code points below 256; strings with other
  characters are outside the model. A Python \<open>float\<close> is the rational number that the
  binary64 value denotes, and every float operation rounds its exact result to binary64
  (see \<open>fl\<close> below).
\<close>

text \<open>
  \<open>str.lower()\<close>: among the code points below 256 the upper-case letters are \<open>A\<close> to
  \<open>Z\<close> and 192 to 222 without the multiplication sign 215, and each is 32 below its
  lower-case letter.
\<close>

definition py_lower_char :: "char \<Rightarrow> char" where
  "py_lower_char c =
     (let n = (of_char c :: nat) in
      if (65 \<le> n \<and> n \<le> 90) \<or> (192 \<le> n \<and> n \<le> 222 \<and> n \<noteq> 215) then char_of (n + 32)
      else c)"

definition py_lower :: "string \<Rightarrow> string" where
  "py_lower s = map py_lower_char s"

text \<open>The substring test \<open>kw in text\<close>.\<close>

fun py_in :: "string \<Rightarrow> string \<Rightarrow> bool" where
  "py_in kw [] = (kw = [])"
| "py_in kw (c # cs) = (prefix kw (c # cs) \<or> py_in kw cs)"

text \<open>\<open>any(t in s for t in ts)\<close> and \<open>sum(1 for kw in kws if kw in s)\<close>.\<close>

definition any_in :: "string list \<Rightarrow> string \<Rightarrow> bool" where
  "any_in ts s = list_ex (\<lambda>t. py_in t s) ts"

definition count_hits :: "string list \<Rightarrow> string \<Rightarrow> int" where
  "count_hits kws s = int (length (filter (\<lambda>kw. py_in kw s) kws))"

text \<open>Truthiness of an optional string and of an optional integer.\<close>

definition truthy_str :: "string option \<Rightarrow> bool" where
  "truthy_str s = (case s of None \<Rightarrow> False | Some v \<Rightarrow> v \<noteq> [])"

definition truthy_int :: "int option \<Rightarrow> bool" where
  "truthy_int n = (case n of None \<Rightarrow> False | Some v \<Rightarrow> v \<noteq> 0)"

text \<open>\<open>s or ''\<close> for an optional string.\<close>

definition or_empty :: "string option \<Rightarrow> string" where
  "or_empty s = (case s of None \<Rightarrow> [] | Some v \<Rightarrow> v)"

text \<open>
  The built-in \<open>round(x)\<close>: to the nearest integer, a tie going to the even neighbour;
  and \<open>round(x, n)\<close>, the same at \<open>n\<close> decimals.
\<close>

definition py_round :: "rat \<Rightarrow> int" where
  "py_round x =
     (let f = \<lfloor>x\<rfloor>; d = x - of_int f in
      if d < 1 / 2 then f
      else if 1 / 2 < d then f + 1
      else if even f then f else f + 1)"

definition py_round_n :: "nat \<Rightarrow> rat \<Rightarrow> rat" where
  "py_round_n n x = of_int (py_round (x * 10 ^ n)) / 10 ^ n"

text \<open>
  Rounding to binary64. For \<open>x\<close> other than 0, \<open>binade x\<close> is the integer \<open>e\<close> with
  \<open>2^e <= |x| < 2^(e+1)\<close>; the binary64 numbers of that binade are the multiples of
  \<open>2^(e-52)\<close>, and \<open>fl x\<close> is the one nearest to \<open>x\<close>, a tie going to the even
  multiple. Overflow and subnormal numbers (magnitudes of \<open>2^1024\<close> and more, or below
  \<open>2^(-1022)\<close>) are not modelled. A float operation of the code is \<open>fl\<close> of the exact
  result, a float literal is \<open>fl\<close> of its decimal, and \<open>round(x, n)\<close> of a float \<open>x\<close>
  is the float nearest to \<open>x\<close> rounded to \<open>n\<close> decimals.
\<close>

definition binade :: "rat \<Rightarrow> int" where
  "binade x =
     (if 1 \<le> \<bar>x\<bar> then bitlen \<lfloor>\<bar>x\<bar>\<rfloor> - 1
      else - bitlen (\<lceil>1 / \<bar>x\<bar>\<rceil> - 1))"

definition fl :: "rat \<Rightarrow> rat" where
  "fl x =
     (if x = 0 then 0
      else (let u = 2 powi (binade x - 52) in of_int (py_round (x / u)) * u))"

definition py_round_float :: "nat \<Rightarrow> rat \<Rightarrow> rat" where
  "py_round_float n x = fl (py_round_n n x)"

text \<open>The clamp \<open>max(0, min(100, x))\<close> that every score goes through.\<close>

definition clamp100 :: "'a::{linorder,numeral,zero} \<Rightarrow> 'a" where
  "clamp100 x = max 0 (min 100 x)"

section \<open>Crowd predictor (services/crowd\_predictor.py)\<close>

definition VENUE_PATTERNS :: "(string \<times> string list) list" where
  "VENUE_PATTERNS =
   [(''beach'', [''beach'', ''shore'', ''coast'', ''seaside'', ''marina'']),
    (''temple'', [''temple'', ''mandir'', ''kovil'', ''church'', ''mosque'', ''shrine'',
                  ''cathedral'', ''basilica'']),
    (''restaurant'', [''restaurant'', ''cafe'', ''dine'', ''dining'', ''food'', ''eat'',
                      ''breakfast'', ''lunch'', ''dinner'', ''biryani'', ''dosa'', ''tiffin'',
                      ''mess'', ''hotel'']),
    (''station'', [''railway'', ''station'', ''junction'', ''bus stand'', ''airport'',
                   ''terminal'', ''departure'', ''arrival'']),
    (''hotel'', [''hotel'', ''resort'', ''check-in'', ''check-out'', ''accommodation'',
                 ''stay'', ''lodge'', ''inn'']),
    (''monument'', [''fort'', ''palace'', ''monument'', ''memorial'', ''museum'', ''gallery'',
                    ''tomb'', ''mausoleum'']),
    (''park'', [''park'', ''garden'', ''botanical'', ''zoo'', ''wildlife'', ''sanctuary'',
                ''reserve'']),
    (''market'', [''market'', ''bazaar'', ''shopping'', ''mall'', ''shop'', ''souvenir'',
                  ''store'']),
    (''viewpoint'', [''viewpoint'', ''view point'', ''sunset'', ''sunrise'', ''scenic'',
                     ''lookout'', ''tip'', ''cape'', ''point'']),
    (''waterfall'', [''waterfall'', ''falls'', ''dam'', ''lake'', ''river'', ''backwater'']),
    (''attraction'', [''attraction'', ''tour'', ''sightseeing'', ''explore'', ''visit''])]"

definition HOURLY_CURVES :: "(string \<times> int list) list" where
  "HOURLY_CURVES =
   [(''beach'', [5, 3, 2, 2, 3, 10, 25, 35, 40, 35, 30, 25,
                 20, 25, 30, 40, 55, 75, 85, 60, 35, 20, 10, 5]),
    (''temple'', [5, 3, 2, 2, 5, 30, 65, 70, 55, 40, 30, 25,
                  20, 15, 15, 20, 35, 60, 70, 55, 35, 20, 10, 5]),
    (''restaurant'', [3, 2, 2, 2, 2, 5, 15, 45, 65, 50, 30, 25,
                      50, 70, 55, 30, 20, 25, 45, 70, 75, 60, 35, 15]),
    (''station'', [20, 15, 10, 10, 15, 30, 55, 70, 75, 60, 45, 40,
                   40, 45, 50, 55, 65, 75, 80, 70, 55, 45, 35, 25]),
    (''hotel'', [10, 5, 3, 3, 5, 10, 20, 35, 50, 55, 60, 55,
                 50, 50, 55, 55, 50, 45, 40, 35, 30, 25, 20, 15]),
    (''monument'', [3, 2, 2, 2, 3, 5, 10, 20, 35, 50, 65, 70,
                    55, 45, 50, 55, 60, 55, 40, 25, 15, 10, 5, 3]),
    (''park'', [3, 2, 2, 2, 5, 15, 35, 50, 55, 50, 45, 40,
                35, 30, 35, 45, 55, 65, 60, 40, 25, 15, 8, 5]),
    (''market'', [2, 2, 2, 2, 3, 5, 10, 20, 35, 50, 65, 70,
                  60, 55, 55, 60, 70, 75, 70, 55, 40, 25, 15, 5]),
    (''viewpoint'', [10, 5, 3, 3, 5, 30, 55, 45, 35, 30, 25, 25,
                     25, 25, 30, 40, 55, 75, 85, 60, 30, 15, 10, 8]),
    (''waterfall'', [3, 2, 2, 2, 3, 5, 15, 25, 40, 55, 65, 70,
                     60, 50, 50, 55, 55, 45, 30, 20, 10, 5, 3, 3]),
    (''attraction'', [3, 2, 2, 2, 3, 5, 15, 25, 40, 55, 65, 70,
                      60, 55, 55, 60, 60, 55, 40, 30, 20, 10, 5, 3])]"

definition DEFAULT_CURVE :: "int list" where
  "DEFAULT_CURVE = [5, 3, 3, 3, 5, 10, 20, 35, 45, 55, 60, 65,
                    55, 50, 50, 55, 60, 60, 50, 40, 30, 20, 10, 5]"

text \<open>Monday is 0, Sunday is 6.\<close>

definition DAY_MULTIPLIERS :: "rat list" where
  "DAY_MULTIPLIERS =
     map fl [80 / 100, 80 / 100, 85 / 100, 90 / 100, 95 / 100, 115 / 100, 120 / 100]"

text \<open>
  The two nested loops of \<open>classify_venue\<close>: the first pattern with a keyword occurring
  in the text wins.
\<close>

fun classify_scan :: "(string \<times> string list) list \<Rightarrow> string \<Rightarrow> string" where
  "classify_scan [] text = ''attraction''"
| "classify_scan ((venue_type, keywords) # ps) text =
     (if any_in keywords text then venue_type else classify_scan ps text)"

definition classify_venue :: "string \<Rightarrow> string option \<Rightarrow> string" where
  "classify_venue title location =
     classify_scan VENUE_PATTERNS (py_lower (title @ '' '' @ or_empty location))"

text \<open>
  The tip is one of four band sentences, optionally followed by a venue-specific sentence.
  Each sentence of the source is a constructor here.
\<close>

datatype tip_band = VeryCrowded | ModeratelyBusy | ReasonableCrowd | QuietTime

datatype tip_addendum =
    BeachSunset | BeachSunrise | TempleMorning | TempleEvening
  | BreakfastPeak | LunchRush | DinnerRush | ViewpointSunset

definition tip_of_busyness :: "int \<Rightarrow> tip_band" where
  "tip_of_busyness busyness =
     (if busyness > 80 then VeryCrowded
      else if busyness > 60 then ModeratelyBusy
      else if busyness > 30 then ReasonableCrowd
      else QuietTime)"

definition venue_addendum :: "string \<Rightarrow> int option \<Rightarrow> tip_addendum option" where
  "venue_addendum venue_type hour =
     (case hour of
        None \<Rightarrow> None
      | Some h \<Rightarrow>
          if venue_type = ''beach'' then
            (if 16 \<le> h \<and> h \<le> 19 then Some BeachSunset
             else if 5 \<le> h \<and> h \<le> 7 then Some BeachSunrise else None)
          else if venue_type = ''temple'' then
            (if 5 \<le> h \<and> h \<le> 8 then Some TempleMorning
             else if 17 \<le> h \<and> h \<le> 19 then Some TempleEvening else None)
          else if venue_type = ''restaurant'' then
            (if h \<in> {7, 8, 9} then Some BreakfastPeak
             else if h \<in> {12, 13, 14} then Some LunchRush
             else if h \<in> {19, 20, 21} then Some DinnerRush else None)
          else if venue_type = ''viewpoint'' then
            (if 16 \<le> h \<and> h \<le> 19 then Some ViewpointSunset else None)
          else None)"

definition curve_of :: "string \<Rightarrow> int list" where
  "curve_of venue_type =
     (case map_of HOURLY_CURVES venue_type of None \<Rightarrow> DEFAULT_CURVE | Some c \<Rightarrow> c)"

definition base_busyness :: "int list \<Rightarrow> int option \<Rightarrow> int" where
  "base_busyness curve hour =
     (case hour of
        Some h \<Rightarrow>
          if 0 \<le> h \<and> h \<le> 23 then curve ! nat h
          else py_round (fl (of_int (sum_list curve) / of_nat (length curve)))
      | None \<Rightarrow> py_round (fl (of_int (sum_list curve) / of_nat (length curve))))"

definition apply_day :: "int \<Rightarrow> int option \<Rightarrow> int" where
  "apply_day base day_of_week =
     (case day_of_week of
        Some d \<Rightarrow>
          if 0 \<le> d \<and> d \<le> 6 then py_round (fl (of_int base * DAY_MULTIPLIERS ! nat d))
          else base
      | None \<Rightarrow> base)"

definition predict_busyness ::
  "string \<Rightarrow> string option \<Rightarrow> int option \<Rightarrow> int option
     \<Rightarrow> int \<times> (tip_band \<times> tip_addendum option) \<times> string" where
  "predict_busyness title location hour day_of_week =
     (let venue_type = classify_venue title location;
          curve = curve_of venue_type;
          base = base_busyness curve hour;
          base = apply_day base day_of_week;
          busyness = clamp100 base
      in (busyness, (tip_of_busyness busyness, venue_addendum venue_type hour), venue_type))"

section \<open>Elderly scorer (services/elderly\_scorer.py)\<close>

definition LOW_EFFORT_TYPES :: "string list" where
  "LOW_EFFORT_TYPES =
   [''museum'', ''cafe'', ''restaurant'', ''theater'', ''cinema'', ''library'',
    ''gallery'', ''spa'', ''temple'', ''church'', ''cathedral'', ''mall'',
    ''shopping_mall'', ''bakery'', ''tea_house'', ''hotel'']"

definition HIGH_EFFORT_TYPES :: "string list" where
  "HIGH_EFFORT_TYPES =
   [''hiking'', ''trek'', ''trail'', ''mountain'', ''waterfall'', ''adventure'',
    ''sports'', ''cycling'', ''surfing'', ''diving'', ''climbing'', ''waterpark'',
    ''amusement_park'', ''theme_park'', ''zoo'']"

definition HIGH_EFFORT_KEYWORDS :: "string list" where
  "HIGH_EFFORT_KEYWORDS =
   [''hike'', ''trek'', ''climb'', ''stairs'', ''steep'', ''walk'', ''trail'',
    ''uphill'', ''adventure'', ''sport'', ''cycling'', ''surf'']"

definition compute_crowd_score :: "rat option \<Rightarrow> rat" where
  "compute_crowd_score busyness_pct =
     (case busyness_pct of None \<Rightarrow> 50 | Some b \<Rightarrow> clamp100 (fl (100 - b)))"

text \<open>The walking rate chosen by \<open>estimate_steps_from_duration\<close>, then the product.\<close>

definition estimate_steps_from_duration :: "int option \<Rightarrow> bool \<Rightarrow> string option \<Rightarrow> int" where
  "estimate_steps_from_duration duration_minutes is_outdoor venue_type =
     (if \<not> truthy_int duration_minutes then 0
      else
        let steps_per_min =
          (if truthy_str venue_type then
             (let vtype = py_lower (the venue_type) in
              if any_in HIGH_EFFORT_TYPES vtype then 90
              else if any_in LOW_EFFORT_TYPES vtype then 20
              else if is_outdoor then 70 else 30)
           else if is_outdoor then 70 else 30)
        in the duration_minutes * steps_per_min)"

definition estimate_distance_from_duration :: "int option \<Rightarrow> bool \<Rightarrow> string option \<Rightarrow> rat" where
  "estimate_distance_from_duration duration_minutes is_outdoor venue_type =
     (if \<not> truthy_int duration_minutes then 0
      else
        let hours = fl (of_int (the duration_minutes) / 60);
            km_per_hour =
          (if truthy_str venue_type then
             (let vtype = py_lower (the venue_type) in
              if any_in HIGH_EFFORT_TYPES vtype then 35 / 10
              else if any_in LOW_EFFORT_TYPES vtype then 5 / 10
              else if is_outdoor then 3 else 15 / 10)
           else if is_outdoor then 3 else 15 / 10)
        in py_round_float 2 (fl (hours * km_per_hour)))"

text \<open>
  \<open>compute_walkability_score\<close> starts at 70 and applies six adjustments in sequence; each
  block of the source is one \<open>let\<close> below, in the source's order.
\<close>

definition distance_adjust :: "rat option \<Rightarrow> rat \<Rightarrow> rat" where
  "distance_adjust distance_km score =
     (case distance_km of
        None \<Rightarrow> score
      | Some d \<Rightarrow>
          if d > 0 then
            (if d > 5 then score - 35
             else if d > 3 then score - 25
             else if d > 2 then score - 15
             else if d > 1 then score - 8
             else score)
          else score)"

definition steps_adjust :: "int option \<Rightarrow> rat \<Rightarrow> rat" where
  "steps_adjust estimated_steps score =
     (case estimated_steps of
        None \<Rightarrow> score
      | Some s \<Rightarrow>
          if s > 0 then
            (if s > 8000 then score - 35
             else if s > 5000 then score - 20
             else if s > 3000 then score - 10
             else if s > 1500 then score - 5
             else score)
          else score)"

definition duration_adjust :: "int option \<Rightarrow> rat \<Rightarrow> rat" where
  "duration_adjust duration_minutes score =
     (if truthy_int duration_minutes then
        (let m = the duration_minutes in
         if m > 180 then score - 20
         else if m > 120 then score - 12
         else if m > 60 then score - 5
         else score)
      else score)"

definition type_adjust :: "string option \<Rightarrow> rat \<Rightarrow> rat" where
  "type_adjust venue_type score =
     (if truthy_str venue_type then
        (let vtype = py_lower (the venue_type) in
         if any_in HIGH_EFFORT_TYPES vtype then score - 25
         else if any_in LOW_EFFORT_TYPES vtype then score + 15
         else score)
      else score)"

definition description_adjust :: "string option \<Rightarrow> rat \<Rightarrow> rat" where
  "description_adjust description score =
     (if truthy_str description then
        (let desc_lower = py_lower (the description);
             effort_hits = count_hits HIGH_EFFORT_KEYWORDS desc_lower
         in score - of_int (effort_hits * 8))
      else score)"

definition compute_walkability_score ::
  "bool \<Rightarrow> int option \<Rightarrow> string option \<Rightarrow> string option \<Rightarrow> rat option \<Rightarrow> int option \<Rightarrow> rat" where
  "compute_walkability_score is_outdoor duration_minutes venue_type description
       distance_km estimated_steps =
     (let score = 70;
          score = distance_adjust distance_km score;
          score = steps_adjust estimated_steps score;
          score = (if is_outdoor then score - 10 else score);
          score = duration_adjust duration_minutes score;
          score = type_adjust venue_type score;
          score = description_adjust description score
      in clamp100 score)"

definition compute_accessibility_score :: "bool \<Rightarrow> string option \<Rightarrow> bool \<Rightarrow> rat" where
  "compute_accessibility_score is_indoor venue_type has_seating =
     (let score = 60;
          score = (if is_indoor then score + 20 else score);
          score = (if has_seating then score + 10 else score);
          score = (if truthy_str venue_type \<and> py_lower (the venue_type) \<in> set LOW_EFFORT_TYPES
                   then score + 10 else score)
      in clamp100 score)"

text \<open>
  \<open>VenueScore\<close>. The free-text \<open>reasons\<close> list is presentation only and is not modelled;
  no score and no ordering depends on it.
\<close>

record venue_score =
  name :: string
  crowd_score :: rat
  walkability_score :: rat
  accessibility_score :: rat
  overall_score :: rat
  recommendation :: string

definition elderly_recommendation :: "rat \<Rightarrow> string" where
  "elderly_recommendation overall =
     (if overall \<ge> 75 then ''Highly Recommended''
      else if overall \<ge> 55 then ''Suitable''
      else if overall \<ge> 35 then ''Use Caution''
      else ''Not Recommended'')"

definition score_venue_for_elderly ::
  "string \<Rightarrow> rat option \<Rightarrow> bool \<Rightarrow> int option \<Rightarrow> string option \<Rightarrow> string option
     \<Rightarrow> bool \<Rightarrow> rat option \<Rightarrow> int option \<Rightarrow> venue_score" where
  "score_venue_for_elderly =
     (\<lambda>name busyness_pct is_outdoor duration_minutes venue_type description
        has_seating distance_km estimated_steps.
      let distance_km =
            (case distance_km of
               None \<Rightarrow> estimate_distance_from_duration duration_minutes is_outdoor venue_type
             | Some d \<Rightarrow> d);
          estimated_steps =
            (case estimated_steps of
               None \<Rightarrow> estimate_steps_from_duration duration_minutes is_outdoor venue_type
             | Some s \<Rightarrow> s);
          crowd = compute_crowd_score busyness_pct;
          walk = compute_walkability_score is_outdoor duration_minutes venue_type description
                   (Some distance_km) (Some estimated_steps);
          access = compute_accessibility_score (\<not> is_outdoor) venue_type has_seating;
          overall = fl (fl (fl (crowd * fl (35 / 100)) + fl (walk * fl (40 / 100)))
                        + fl (access * fl (25 / 100)));
          rec = elderly_recommendation overall
      in \<lparr>venue_score.name = name,
          crowd_score = py_round_float 1 crowd,
          walkability_score = py_round_float 1 walk,
          accessibility_score = py_round_float 1 access,
          overall_score = py_round_float 1 overall,
          recommendation = rec\<rparr>)"

text \<open>
  The activity dictionaries that the routers hand to the two ranking functions. A key
  that is read with \<open>a.get(k)\<close> is an optional field: an absent key and a key mapped
  to \<open>None\<close> both read as \<open>None\<close>. The keys \<open>is_outdoor\<close> and \<open>has_seating\<close> are read
  with a default, so the model tells an absent key (the default is used) from a key
  mapped to \<open>None\<close> (which is falsy in every test the scorers make). The key \<open>title\<close> is
  read with the default \<open>"Unknown"\<close> and only when the name is falsy; its field is
  \<open>None\<close> when the key is absent, and a title mapped to \<open>None\<close>, which no caller in
  the backend builds and for which the constructor of the score object raises, is outside
  the model. The key \<open>type\<close> is the field \<open>type'\<close>.
\<close>

datatype 'a entry = Absent | IsNone | Value 'a

definition entry_truthy :: "bool entry \<Rightarrow> bool \<Rightarrow> bool" where
  "entry_truthy e dflt = (case e of Absent \<Rightarrow> dflt | IsNone \<Rightarrow> False | Value b \<Rightarrow> b)"

record activity_dict =
  name :: "string option"
  title :: "string option"
  busyness_pct :: "rat option"
  is_outdoor :: "bool entry"
  duration_minutes :: "int option"
  type' :: "string option"
  category :: "string option"
  description :: "string option"
  has_seating :: "bool entry"
  distance_km :: "rat option"
  estimated_steps :: "int option"

definition get_or :: "'a option \<Rightarrow> 'a \<Rightarrow> 'a" where
  "get_or v dflt = (case v of None \<Rightarrow> dflt | Some x \<Rightarrow> x)"

text \<open>\<open>a or b\<close> on optional strings: the first operand when it is truthy, else the second.\<close>

definition str_or :: "string option \<Rightarrow> string option \<Rightarrow> string option" where
  "str_or a b = (if truthy_str a then a else b)"

text \<open>
  \<open>list.sort(key=..., reverse=True)\<close>: CPython reverses the list, sorts it stably in
  ascending key order and reverses it again, so that equal keys keep their input order.
  \<open>sort_key\<close> is the stable insertion sort of the list library.
\<close>

definition py_sort_reverse :: "('a \<Rightarrow> rat) \<Rightarrow> 'a list \<Rightarrow> 'a list" where
  "py_sort_reverse key xs = rev (sort_key key (rev xs))"

definition score_elderly_dict :: "activity_dict \<Rightarrow> venue_score" where
  "score_elderly_dict a =
     score_venue_for_elderly
       (get_or (str_or (activity_dict.name a) (Some (get_or (title a) ''Unknown''))) ''Unknown'')
       (busyness_pct a)
       (entry_truthy (is_outdoor a) False)
       (duration_minutes a)
       (str_or (type' a) (category a))
       (description a)
       (entry_truthy (has_seating a) True)
       (distance_km a)
       (estimated_steps a)"

definition rank_activities_for_elderly :: "activity_dict list \<Rightarrow> venue_score list" where
  "rank_activities_for_elderly activities =
     (let scored = map score_elderly_dict activities
      in py_sort_reverse venue_score.overall_score scored)"

section \<open>Child scorer (services/child\_scorer.py)\<close>

record child_score =
  name :: string
  fun_score :: rat
  safety_score :: rat
  engagement_score :: rat
  overall_score :: rat
  recommendation :: string

definition KID_FRIENDLY_TYPES :: "string list" where
  "KID_FRIENDLY_TYPES =
   [''amusement_park'', ''theme_park'', ''zoo'', ''aquarium'', ''playground'',
    ''park'', ''water_park'', ''waterpark'', ''beach'', ''ice_cream'',
    ''toy_store'', ''carnival'', ''circus'', ''bowling'', ''arcade'',
    ''trampoline'', ''museum'', ''science_center'', ''planetarium'']"

definition SUPER_FUN_KEYWORDS :: "string list" where
  "SUPER_FUN_KEYWORDS =
   [''amusement'', ''theme park'', ''roller coaster'', ''water slide'',
    ''zoo'', ''aquarium'', ''playground'', ''trampoline'', ''carnival'',
    ''magic show'', ''puppet'', ''cartoon'', ''toy'', ''candy'',
    ''ice cream'', ''chocolate'', ''fun'', ''adventure park'', ''splash'',
    ''go kart'', ''bumper car'', ''ferris wheel'', ''merry-go-round'',
    ''arcade'', ''gaming'', ''laser tag'', ''mini golf'', ''bowling'']"

definition BORING_FOR_KIDS_KEYWORDS :: "string list" where
  "BORING_FOR_KIDS_KEYWORDS =
   [''wine'', ''bar'', ''pub'', ''nightclub'', ''brewery'', ''cocktail'',
    ''spa'', ''massage'', ''meditation'', ''yoga retreat'',
    ''business'', ''conference'', ''seminar'', ''workshop'',
    ''art gallery'', ''antique'', ''heritage walk'']"

definition RISKY_FOR_KIDS_KEYWORDS :: "string list" where
  "RISKY_FOR_KIDS_KEYWORDS =
   [''bungee'', ''paragliding'', ''scuba'', ''deep sea'',
    ''rock climbing'', ''cliff'', ''white water'', ''rapids'',
    ''skydiving'', ''zip line'', ''mountaineering'']"

definition kid_patterns :: "(string \<times> string list) list" where
  "kid_patterns =
   [(''beach'', [''beach'', ''shore'', ''coast'', ''seaside'']),
    (''temple'', [''temple'', ''mandir'', ''church'', ''mosque'', ''shrine'']),
    (''restaurant'', [''restaurant'', ''cafe'', ''food'', ''breakfast'', ''lunch'', ''dinner'',
                      ''dosa'', ''biryani'']),
    (''station'', [''railway'', ''station'', ''bus stand'', ''airport'', ''departure'',
                   ''arrival'']),
    (''hotel'', [''hotel'', ''resort'', ''check-in'', ''lodge'', ''stay'']),
    (''monument'', [''fort'', ''palace'', ''memorial'', ''tomb'']),
    (''park'', [''park'', ''garden'', ''botanical'']),
    (''market'', [''market'', ''bazaar'', ''shopping'', ''mall'']),
    (''viewpoint'', [''viewpoint'', ''sunset'', ''sunrise'', ''scenic'', ''lookout'']),
    (''waterfall'', [''waterfall'', ''falls'', ''dam'', ''lake''])]"

text \<open>\<open>venue_type.replace("_", " ")\<close>.\<close>

definition underscores_to_spaces :: "string \<Rightarrow> string" where
  "underscores_to_spaces s = map (\<lambda>c. if c = CHR ''_'' then CHR '' '' else c) s"

text \<open>
  \<open>_classify_for_kids\<close> first walks the set \<open>KID_FRIENDLY_TYPES\<close>. Python fixes no iteration
  order for a set of strings, so the order in which the set is walked is the parameter
  \<open>types_order\<close> of the model; every property below holds for every such order.
\<close>

fun kid_type_scan :: "string list \<Rightarrow> string \<Rightarrow> string option" where
  "kid_type_scan [] text = None"
| "kid_type_scan (venue_type # ts) text =
     (if py_in (underscores_to_spaces venue_type) text \<or> py_in venue_type text
      then Some venue_type else kid_type_scan ts text)"

definition classify_for_kids :: "string list \<Rightarrow> string \<Rightarrow> string option \<Rightarrow> string" where
  "classify_for_kids =
     (\<lambda>types_order title description.
      let text = py_lower (title @ '' '' @ or_empty description) in
      case kid_type_scan types_order text of
        Some venue_type \<Rightarrow> venue_type
      | None \<Rightarrow> classify_scan kid_patterns text)"

definition child_recommendation :: "rat \<Rightarrow> string" where
  "child_recommendation overall =
     (if overall \<ge> 75 then ''Super Fun!''
      else if overall \<ge> 55 then ''Good for Kids''
      else if overall \<ge> 35 then ''Okay''
      else ''Not for Kids'')"

text \<open>
  \<open>score_activity_for_child\<close>. The emoji, the reasons and the suggested alternative are
  presentation strings and are not modelled.
\<close>

definition score_activity_for_child ::
  "string list \<Rightarrow> string \<Rightarrow> string option \<Rightarrow> bool \<Rightarrow> int option \<Rightarrow> string option
     \<Rightarrow> child_score" where
  "score_activity_for_child =
     (\<lambda>types_order name description is_outdoor duration_minutes venue_type.
      let text = py_lower (name @ '' '' @ or_empty description);
          vtype = (if truthy_str venue_type then the venue_type
                   else classify_for_kids types_order name description);
          fun_s = 50;
          super_fun_hits = count_hits SUPER_FUN_KEYWORDS text;
          fun_s = fun_s + of_int (super_fun_hits * 12);
          boring_hits = count_hits BORING_FOR_KIDS_KEYWORDS text;
          fun_s = fun_s - of_int (boring_hits * 15);
          fun_s = (if vtype \<in> set KID_FRIENDLY_TYPES then fun_s + 20 else fun_s);
          fun_s = (if is_outdoor then fun_s + 5 else fun_s);
          fun_s = (if truthy_int duration_minutes \<and> the duration_minutes \<le> 60 then fun_s + 5
                   else if truthy_int duration_minutes \<and> the duration_minutes > 120
                   then fun_s - 10 else fun_s);
          fun_s = clamp100 fun_s;
          safety = 70;
          risky_hits = count_hits RISKY_FOR_KIDS_KEYWORDS text;
          safety = safety - of_int (risky_hits * 20);
          safety = (if \<not> is_outdoor then safety + 10 else safety);
          safety = (if vtype \<in> {''restaurant'', ''hotel'', ''museum'', ''cinema'', ''mall''}
                    then safety + 10 else safety);
          safety = (if vtype \<in> {''beach'', ''waterfall'', ''viewpoint''}
                    then safety - 5 else safety);
          safety = clamp100 safety;
          engagement = 50;
          engagement =
            (if vtype \<in> {''zoo'', ''aquarium'', ''amusement_park'', ''theme_park'',
                          ''playground'', ''museum''} then engagement + 30
             else if vtype \<in> {''park'', ''beach''} then engagement + 15
             else if vtype \<in> {''temple'', ''monument''} then engagement - 5
             else engagement);
          engagement = (if super_fun_hits > 0 then engagement + 15 else engagement);
          engagement = (if boring_hits > 0 then engagement - 20 else engagement);
          engagement = clamp100 engagement;
          overall = fl (fl (fl (fun_s * fl (45 / 100)) + fl (safety * fl (25 / 100)))
                        + fl (engagement * fl (30 / 100)));
          overall = clamp100 overall;
          rec = child_recommendation overall
      in \<lparr>child_score.name = name,
          fun_score = py_round_float 1 fun_s,
          safety_score = py_round_float 1 safety,
          engagement_score = py_round_float 1 engagement,
          overall_score = py_round_float 1 overall,
          recommendation = rec\<rparr>)"

definition score_child_dict :: "string list \<Rightarrow> activity_dict \<Rightarrow> child_score" where
  "score_child_dict types_order a =
     score_activity_for_child types_order
       (get_or (str_or (activity_dict.name a) (Some (get_or (title a) ''Unknown''))) ''Unknown'')
       (description a)
       (entry_truthy (is_outdoor a) False)
       (duration_minutes a)
       (str_or (type' a) (category a))"

definition rank_activities_for_children :: "string list \<Rightarrow> activity_dict list \<Rightarrow> child_score list" where
  "rank_activities_for_children types_order activities =
     (let scored = map (score_child_dict types_order) activities
      in py_sort_reverse child_score.overall_score scored)"

section \<open>JSON payloads and Python exceptions\<close>

text \<open>
  The answers of the crowd-data service are JSON values, and the backend inspects them
  with dynamic type tests (\<open>isinstance\<close>, truthiness), so the model keeps them untyped.
  A JSON object is an association list; a key is read with \<open>map_of\<close>, so the first
  binding of a key is the one that counts. JSON numbers are \<open>JInt\<close> or \<open>JFloat\<close>, the
  latter carrying the value of the binary64 number that the decoder yields; the literals
  \<open>NaN\<close> and \<open>Infinity\<close>, which the decoder also accepts, are outside the model.

  An exception raised by the Python code is a value of \<open>py_exn\<close>, and a computation that
  may raise returns \<open>py_exn + 'a\<close>, \<open>Inl\<close> carrying the exception. \<open>TransportError\<close>
  stands for whatever the HTTP library raises (connection failure, error status in
  \<open>raise_for_status\<close>, undecodable body); \<open>HTTPException\<close> is the exception of the web
  framework that becomes an error response with the given status code.
\<close>

datatype json =
    JNull
  | JBool bool
  | JInt int
  | JFloat rat
  | JStr string
  | JList "json list"
  | JDict "(string \<times> json) list"

datatype py_exn =
    AttributeError
  | TypeError
  | KeyError
  | ValueError
  | ZeroDivisionError
  | ValidationError
  | TransportError
  | HTTPException int

definition bind_exn :: "py_exn + 'a \<Rightarrow> ('a \<Rightarrow> py_exn + 'b) \<Rightarrow> py_exn + 'b" where
  "bind_exn m f = (case m of Inl e \<Rightarrow> Inl e | Inr x \<Rightarrow> f x)"

text \<open>Truthiness of a value, as tested by \<open>if v\<close>, \<open>not v\<close>, \<open>a or b\<close>.\<close>

fun truthy :: "json \<Rightarrow> bool" where
  "truthy JNull = False"
| "truthy (JBool b) = b"
| "truthy (JInt i) = (i \<noteq> 0)"
| "truthy (JFloat x) = (x \<noteq> 0)"
| "truthy (JStr s) = (s \<noteq> [])"
| "truthy (JList xs) = (xs \<noteq> [])"
| "truthy (JDict kvs) = (kvs \<noteq> [])"

text \<open>
  \<open>isinstance(v, (int, float))\<close> and the numeric value of such a \<open>v\<close>. In Python \<open>bool\<close>
  is a subclass of \<open>int\<close>, so \<open>True\<close> and \<open>False\<close> pass the test and count as 1 and 0.
\<close>

fun is_number :: "json \<Rightarrow> bool" where
  "is_number (JBool b) = True"
| "is_number (JInt i) = True"
| "is_number (JFloat x) = True"
| "is_number j = False"

fun num_val :: "json \<Rightarrow> rat" where
  "num_val (JBool b) = (if b then 1 else 0)"
| "num_val (JInt i) = of_int i"
| "num_val (JFloat x) = x"
| "num_val j = 0"

text \<open>
  Arithmetic on such values. A Python number is an \<open>int\<close> or a \<open>float\<close>; \<open>float(v)\<close>
  converts, \<open>sum\<close> adds from the left starting with the integer 0, exactly as long as
  both operands are integers and with a rounded float addition otherwise, and
  \<open>sum(xs) / len(xs)\<close> is the correctly rounded quotient.
\<close>

datatype py_num = PInt int | PFloat rat

fun num_of :: "json \<Rightarrow> py_num" where
  "num_of (JBool b) = PInt (if b then 1 else 0)"
| "num_of (JInt i) = PInt i"
| "num_of (JFloat x) = PFloat x"
| "num_of j = PInt 0"

fun py_float :: "py_num \<Rightarrow> rat" where
  "py_float (PInt i) = fl (of_int i)"
| "py_float (PFloat x) = x"

fun py_add :: "py_num \<Rightarrow> py_num \<Rightarrow> py_num" where
  "py_add (PInt a) (PInt b) = PInt (a + b)"
| "py_add (PInt a) (PFloat y) = PFloat (fl (fl (of_int a) + y))"
| "py_add (PFloat x) (PInt b) = PFloat (fl (x + fl (of_int b)))"
| "py_add (PFloat x) (PFloat y) = PFloat (fl (x + y))"

definition py_sum :: "py_num list \<Rightarrow> py_num" where
  "py_sum xs = foldl py_add (PInt 0) xs"

definition py_mean :: "py_num list \<Rightarrow> rat" where
  "py_mean xs =
     (case py_sum xs of
        PInt a \<Rightarrow> fl (of_int a / of_nat (length xs))
      | PFloat x \<Rightarrow> fl (x / fl (of_nat (length xs))))"

text \<open>
  \<open>d.get(k, dflt)\<close> on the bindings of a dictionary, and on an arbitrary value: only a
  dictionary has the method, on anything else the call raises \<open>AttributeError\<close>.
\<close>

definition dget :: "(string \<times> json) list \<Rightarrow> string \<Rightarrow> json \<Rightarrow> json" where
  "dget kvs k dflt = (case map_of kvs k of None \<Rightarrow> dflt | Some v \<Rightarrow> v)"

fun py_get :: "json \<Rightarrow> string \<Rightarrow> json \<Rightarrow> py_exn + json" where
  "py_get (JDict kvs) k dflt = Inr (dget kvs k dflt)"
| "py_get j k dflt = Inl AttributeError"

text \<open>
  \<open>len(v)\<close>, \<open>v[i]\<close> for \<open>0 <= i < len(v)\<close>, and the elements that \<open>for x in v\<close> visits,
  for a value \<open>v\<close> that has passed a truthiness test. A dictionary decoded from JSON has
  string keys only, so indexing it with an integer raises \<open>KeyError\<close>; iterating over it
  yields its keys.
\<close>

fun py_len :: "json \<Rightarrow> py_exn + int" where
  "py_len (JList xs) = Inr (int (length xs))"
| "py_len (JStr s) = Inr (int (length s))"
| "py_len (JDict kvs) = Inr (int (length kvs))"
| "py_len j = Inl TypeError"

fun py_index :: "json \<Rightarrow> int \<Rightarrow> py_exn + json" where
  "py_index (JList xs) i = Inr (xs ! nat i)"
| "py_index (JStr s) i = Inr (JStr [s ! nat i])"
| "py_index (JDict kvs) i = Inl KeyError"
| "py_index j i = Inl TypeError"

fun py_iter :: "json \<Rightarrow> py_exn + json list" where
  "py_iter (JList xs) = Inr xs"
| "py_iter (JStr s) = Inr (map (\<lambda>c. JStr [c]) s)"
| "py_iter (JDict kvs) = Inr (map (\<lambda>kv. JStr (fst kv)) kvs)"
| "py_iter j = Inl TypeError"

section \<open>Crowd-data client (services/besttime.py)\<close>

record besttime_client =
  api_key_private :: string
  api_key_public :: string

definition is_configured :: "besttime_client \<Rightarrow> bool" where
  "is_configured c =
     (if api_key_private c = [] \<or> api_key_public c = [] then False
      else if py_in ''your_private_key'' (api_key_private c)
            \<or> py_in ''your_public'' (api_key_public c) then False
      else True)"

text \<open>
  The external service is a sequence of answers: \<open>w i\<close> is the outcome of the \<open>i\<close>-th HTTP
  exchange of the process (request, \<open>raise_for_status\<close>, \<open>json()\<close>), either the decoded
  body or the exception raised. Every client method takes the number \<open>n\<close> of exchanges made
  so far and returns, with its result, the number made afterwards; so an unchanged counter
  means that no external call was made. Which request is sent is determined by the program
  and does not appear in the model; waiting (\<open>asyncio.sleep\<close>) takes no exchange and is
  not modelled.
\<close>

type_synonym world = "nat \<Rightarrow> py_exn + json"

text \<open>
  The polling loop of \<open>venue_search\<close>, with \<open>k\<close> iterations left. \<open>progress_data\<close> is the
  local variable of that name, \<open>None\<close> while it is unbound. An exception inside the \<open>try\<close>
  block (from the exchange, or from \<open>progress_data.get\<close> when the body is not an object)
  goes to \<open>continue\<close>; in the second case the variable has already been assigned.
\<close>

fun poll_loop :: "world \<Rightarrow> json \<Rightarrow> nat \<Rightarrow> nat \<Rightarrow> json option \<Rightarrow> json \<times> nat" where
  "poll_loop w start_data 0 n progress_data =
     ((case progress_data of Some p \<Rightarrow> p | None \<Rightarrow> start_data), n)"
| "poll_loop w start_data (Suc k) n progress_data =
     (case w n of
        Inl e \<Rightarrow> poll_loop w start_data k (Suc n) progress_data
      | Inr p \<Rightarrow>
          (case py_get p ''job_finished'' (JBool False) of
             Inl e \<Rightarrow> poll_loop w start_data k (Suc n) (Some p)
           | Inr job_finished \<Rightarrow>
               if truthy job_finished then (p, Suc n)
               else poll_loop w start_data k (Suc n) (Some p)))"

definition venue_search :: "world \<Rightarrow> nat \<Rightarrow> (py_exn + json) \<times> nat" where
  "venue_search w n =
     (case w n of
        Inl e \<Rightarrow> (Inl e, Suc n)
      | Inr start_data \<Rightarrow>
          (case py_get start_data ''job_id'' JNull of
             Inl e \<Rightarrow> (Inl e, Suc n)
           | Inr job_id \<Rightarrow>
               (case py_get start_data ''collection_id'' JNull of
                  Inl e \<Rightarrow> (Inl e, Suc n)
                | Inr collection_id \<Rightarrow>
                    if \<not> truthy job_id \<or> \<not> truthy collection_id then (Inr start_data, Suc n)
                    else (case poll_loop w start_data 15 (Suc n) None of
                            (r, n') \<Rightarrow> (Inr r, n')))))"

definition get_forecast_day :: "world \<Rightarrow> nat \<Rightarrow> (py_exn + json) \<times> nat" where
  "get_forecast_day w n = (w n, Suc n)"

text \<open>
  What the description of the polling loop speaks of: a poll reports the finished flag
  when its exchange succeeds with an object whose \<open>job_finished\<close> is truthy, and the
  payloads observed in \<open>k\<close> polls from exchange \<open>n\<close> on are the bodies of the exchanges
  that succeeded.
\<close>

definition poll_finished :: "py_exn + json \<Rightarrow> bool" where
  "poll_finished r =
     (case r of
        Inl e \<Rightarrow> False
      | Inr p \<Rightarrow> (case p of JDict kvs \<Rightarrow> truthy (dget kvs ''job_finished'' (JBool False))
                 | _ \<Rightarrow> False))"

definition observed_payloads :: "world \<Rightarrow> nat \<Rightarrow> nat \<Rightarrow> json list" where
  "observed_payloads w n k =
     concat (map (\<lambda>i. case w i of Inl e \<Rightarrow> [] | Inr p \<Rightarrow> [p]) [n..<n + k])"

definition last_observed :: "world \<Rightarrow> nat \<Rightarrow> nat \<Rightarrow> json \<Rightarrow> json" where
  "last_observed w n k start_data =
     (if observed_payloads w n k = [] then start_data else last (observed_payloads w n k))"

text \<open>Two services used as examples: one finishes at the third poll, one never does.\<close>

definition example_start :: json where
  "example_start = JDict [(''job_id'', JStr ''j1''), (''collection_id'', JStr ''c1'')]"

definition example_done :: json where
  "example_done = JDict [(''job_finished'', JBool True), (''venues'', JList [])]"

definition example_partial :: json where
  "example_partial = JDict [(''job_finished'', JBool False), (''count_completed'', JInt 1)]"

definition world_finishing :: world where
  "world_finishing i =
     (if i = 0 then Inr example_start
      else if i = 1 then Inl TransportError
      else if i = 2 then Inr example_partial
      else if i = 3 then Inr example_done
      else Inl TransportError)"

definition world_stalling :: world where
  "world_stalling i =
     (if i = 0 then Inr example_start
      else if i = 5 then Inr example_partial
      else Inl TransportError)"

section \<open>Crowd router (routers/crowd.py)\<close>

text \<open>
  \<open>extract_venues_from_progress\<close>: the list itself when the payload is a list, else
  the first non-empty of the keys \<open>venues\<close>, \<open>venues_forecasts\<close>, \<open>venue_info\<close> of an
  object (the empty list when that value is not a list), else the empty list.
\<close>

definition list_or_empty :: "json \<Rightarrow> json list" where
  "list_or_empty v = (case v of JList xs \<Rightarrow> xs | _ \<Rightarrow> [])"

definition extract_venues_from_progress :: "json \<Rightarrow> json list" where
  "extract_venues_from_progress data =
     (case data of
        JList xs \<Rightarrow> xs
      | JDict kvs \<Rightarrow>
          (let venues = dget kvs ''venues'' (JList []) in
           if truthy venues then list_or_empty venues
           else
             (let forecasts = dget kvs ''venues_forecasts'' (JList []) in
              if truthy forecasts then list_or_empty forecasts
              else
                (let venue_info = dget kvs ''venue_info'' (JList []) in
                 if truthy venue_info then list_or_empty venue_info
                 else [])))
      | _ \<Rightarrow> [])"

text \<open>
  Three fragments occur in several handlers and are modelled once.

  \<open>day_raw_cell analysis hour\<close> is the fragment
  \<open>day_raw = analysis.get("day_raw", []); if day_raw and hour is not None and
  0 <= hour < len(day_raw): ... day_raw[hour]\<close>; it yields the cell that is read, or
  \<open>None\<close> when the condition fails. The tests are evaluated from left to right, so
  \<open>len\<close> is called only when the earlier ones have passed.

  \<open>week_positive_hours\<close> collects, from the rows of \<open>week_raw\<close> that are lists, the
  entries that are numbers greater than 0; \<open>week_mean analysis\<close> is the fragment
  \<open>week_raw = analysis.get("week_raw", []); if week_raw: all_hours = ...\<close> and yields
  \<open>sum(all_hours) / len(all_hours)\<close>, or \<open>None\<close> when \<open>week_raw\<close> is falsy or there
  is no such entry.
\<close>

definition day_raw_cell :: "json \<Rightarrow> int option \<Rightarrow> py_exn + json option" where
  "day_raw_cell analysis hour =
     bind_exn (py_get analysis ''day_raw'' (JList [])) (\<lambda>day_raw.
       case hour of
         None \<Rightarrow> Inr None
       | Some h \<Rightarrow>
           if \<not> truthy day_raw then Inr None
           else if \<not> 0 \<le> h then Inr None
           else bind_exn (py_len day_raw) (\<lambda>n.
                  if h < n then bind_exn (py_index day_raw h) (\<lambda>val. Inr (Some val))
                  else Inr None))"

definition week_positive_hours :: "json list \<Rightarrow> py_num list" where
  "week_positive_hours days =
     concat (map (\<lambda>day. case day of
                           JList hs \<Rightarrow> map num_of (filter (\<lambda>h. is_number h \<and> num_val h > 0) hs)
                         | _ \<Rightarrow> []) days)"

definition week_mean :: "json \<Rightarrow> py_exn + rat option" where
  "week_mean analysis =
     bind_exn (py_get analysis ''week_raw'' (JList [])) (\<lambda>week_raw.
       if truthy week_raw then
         bind_exn (py_iter week_raw) (\<lambda>days.
           let all_hours = week_positive_hours days in
           Inr (if all_hours = [] then None else Some (py_mean all_hours)))
       else Inr None)"

text \<open>The last loop of \<open>extract_busyness_from_venue\<close>, over the direct busyness fields.\<close>

fun first_numeric_field :: "json \<Rightarrow> string list \<Rightarrow> py_exn + rat option" where
  "first_numeric_field venue [] = Inr None"
| "first_numeric_field venue (key # keys) =
     (case py_get venue key JNull of
        Inl e \<Rightarrow> Inl e
      | Inr val \<Rightarrow>
          if is_number val then Inr (Some (py_float (num_of val)))
          else first_numeric_field venue keys)"

definition extract_busyness_from_venue ::
  "json \<Rightarrow> int option \<Rightarrow> int option \<Rightarrow> py_exn + rat option" where
  "extract_busyness_from_venue venue day_of_week hour =
     bind_exn (py_get venue ''venue_foot_traffic_forecast'' JNull) (\<lambda>f1.
     bind_exn (if truthy f1 then Inr f1 else py_get venue ''forecast'' JNull) (\<lambda>f2.
     let ft = (if truthy f2 then f2 else JDict []) in
     bind_exn (py_get ft ''analysis'' (JDict [])) (\<lambda>analysis.
     bind_exn (case day_of_week of
                 None \<Rightarrow> Inr None
               | Some d \<Rightarrow>
                   bind_exn (day_raw_cell analysis hour) (\<lambda>cell.
                     case cell of
                       None \<Rightarrow> Inr None
                     | Some val \<Rightarrow>
                         if is_number val \<and> num_val val \<ge> 0
                         then Inr (Some (py_float (num_of val)))
                         else Inr None)) (\<lambda>at_hour.
     case at_hour of
       Some v \<Rightarrow> Inr (Some v)
     | None \<Rightarrow>
         bind_exn (week_mean analysis) (\<lambda>mean.
           case mean of
             Some m \<Rightarrow> Inr (Some (py_round_float 1 m))
           | None \<Rightarrow>
               first_numeric_field venue
                 [''venue_forecasted_busyness'', ''busyness'', ''busy_pct''])))))"

text \<open>
  \<open>int(s)\<close> on a string: surrounding whitespace is dropped (among the code points below
  256 these are 9 to 13, 32, 133 and 160), one sign is allowed, and the digits may be
  separated by single underscores; anything else raises \<open>ValueError\<close>. \<open>parse_hour\<close> is the fragment that reads the hour of a start
  time: the text before the first colon, \<open>None\<close> when there is no start time or the
  conversion fails.
\<close>

definition py_isspace :: "char \<Rightarrow> bool" where
  "py_isspace c =
     (c \<in> set [CHR 0x09, CHR 0x0A, CHR 0x0B, CHR 0x0C, CHR 0x0D, CHR '' '',
               CHR 0x85, CHR 0xA0])"

definition py_strip :: "string \<Rightarrow> string" where
  "py_strip s = rev (dropWhile py_isspace (rev (dropWhile py_isspace s)))"

definition is_digit :: "char \<Rightarrow> bool" where
  "is_digit c = (c \<in> set ''0123456789'')"

definition digit_val :: "char \<Rightarrow> int" where
  "digit_val c = int (of_char c) - 48"

fun digits_ok :: "string \<Rightarrow> bool" where
  "digits_ok [] = False"
| "digits_ok [c] = is_digit c"
| "digits_ok (c # d # cs) =
     (is_digit c \<and> (if d = CHR ''_'' then digits_ok cs else digits_ok (d # cs)))"

definition digits_value :: "string \<Rightarrow> int" where
  "digits_value ds = foldl (\<lambda>acc c. 10 * acc + digit_val c) 0 (filter is_digit ds)"

definition py_int :: "string \<Rightarrow> py_exn + int" where
  "py_int s =
     (let t = py_strip s;
          negative = (t \<noteq> [] \<and> hd t = CHR ''-'');
          signed = (t \<noteq> [] \<and> (hd t = CHR ''-'' \<or> hd t = CHR ''+''));
          body = (if signed then tl t else t)
      in if digits_ok body
         then Inr (if negative then - digits_value body else digits_value body)
         else Inl ValueError)"

definition hour_text :: "string \<Rightarrow> string" where
  "hour_text s = takeWhile (\<lambda>c. c \<noteq> CHR '':'') s"

definition parse_hour :: "string option \<Rightarrow> int option" where
  "parse_hour start_time =
     (if truthy_str start_time then
        (case py_int (hour_text (or_empty start_time)) of
           Inl e \<Rightarrow> None
         | Inr h \<Rightarrow> Some h)
      else None)"

record itinerary_activity =
  title :: string
  location :: "string option"
  start_time :: "string option"
  day_of_week :: "int option"

record analyze_itinerary_request =
  destination :: string
  activities :: "itinerary_activity list"

text \<open>
  An entry of the analysis. The tip is either the tip of the predictor or one of the four
  sentences that the handler itself attaches to a measured value; \<open>venue_info\<close> holds
  the predicted venue type, or the address and type of the venue found. The key
  \<open>api_available\<close> exists only in the entries made while the service is not
  configured. A measured busyness is a number (a Boolean counting as 0 or 1).
\<close>

datatype crowd_tip = PredictedTip "tip_band \<times> tip_addendum option" | MeasuredTip tip_band

datatype venue_info = PredictedType string | FoundVenue json json

record analysis_entry =
  activity :: string
  venue_name :: json
  venue_id :: json
  busyness_at_planned_time :: rat
  optimization_tip :: crowd_tip
  venue_info :: venue_info
  api_available :: "bool option"
  is_predicted :: bool

record analyze_itinerary_response =
  destination :: string
  analysis :: "analysis_entry list"
  api_configured :: "bool option"

text \<open>
  The value of \<open>bt and bt.is_configured\<close>: \<open>None\<close> when there is no client object.
\<close>

definition api_available_of :: "besttime_client option \<Rightarrow> bool option" where
  "api_available_of bt = (case bt of None \<Rightarrow> None | Some c \<Rightarrow> Some (is_configured c))"

text \<open>
  The entry built from the prediction; the handler builds it in three places (service
  not configured, no venue found, exception), with the key \<open>api_available\<close> in the
  first only.
\<close>

definition predicted_entry ::
  "itinerary_activity \<Rightarrow> int option \<Rightarrow> bool option \<Rightarrow> analysis_entry" where
  "predicted_entry a hour flag =
     (case predict_busyness (itinerary_activity.title a) (itinerary_activity.location a) hour
             (itinerary_activity.day_of_week a) of
        (pred_pct, pred_tip, venue_type) \<Rightarrow>
          \<lparr>activity = itinerary_activity.title a,
           venue_name = JNull,
           venue_id = JNull,
           busyness_at_planned_time = of_int pred_pct,
           optimization_tip = PredictedTip pred_tip,
           venue_info = PredictedType venue_type,
           api_available = flag,
           is_predicted = True\<rparr>)"

text \<open>
  The separate forecast request of the handler, with its own \<open>try\<close>: the new value of
  \<open>busyness_at_time\<close> (\<open>JNull\<close> standing for \<open>None\<close>, the value it keeps when nothing is
  assigned) and the exchange counter.
\<close>

definition forecast_cell :: "world \<Rightarrow> nat \<Rightarrow> int option \<Rightarrow> json \<times> nat" where
  "forecast_cell w n hour =
     (case get_forecast_day w n of
        (Inl e, n') \<Rightarrow> (JNull, n')
      | (Inr forecast, n') \<Rightarrow>
          (case forecast of
             JDict kvs \<Rightarrow>
               (case day_raw_cell (dget kvs ''analysis'' (JDict [])) hour of
                  Inl e \<Rightarrow> (JNull, n')
                | Inr None \<Rightarrow> (JNull, n')
                | Inr (Some val) \<Rightarrow> (val, n'))
           | _ \<Rightarrow> (JNull, n')))"

definition measured_tip :: "rat \<Rightarrow> tip_band" where
  "measured_tip b =
     (if b > 80 then VeryCrowded
      else if b > 60 then ModeratelyBusy
      else if b > 30 then ReasonableCrowd
      else QuietTime)"

text \<open>
  The body of the \<open>try\<close> block for one activity: the entry appended, or the exception
  that reaches the handler's \<open>except\<close>. Comparing a value that is not a number with 80
  raises \<open>TypeError\<close>.
\<close>

definition lookup_entry ::
  "world \<Rightarrow> nat \<Rightarrow> itinerary_activity \<Rightarrow> int option \<Rightarrow> (py_exn + analysis_entry) \<times> nat" where
  "lookup_entry w n a hour =
     (case venue_search w n of
        (Inl e, n1) \<Rightarrow> (Inl e, n1)
      | (Inr search_data, n1) \<Rightarrow>
          (case extract_venues_from_progress search_data of
             [] \<Rightarrow> (Inr (predicted_entry a hour None), n1)
           | venue # others \<Rightarrow>
               (let vid = (case venue of JDict kvs \<Rightarrow> dget kvs ''venue_id'' JNull | _ \<Rightarrow> JNull);
                    vname = (case venue of
                               JDict kvs \<Rightarrow> dget kvs ''venue_name'' (JStr ''Unknown'')
                             | _ \<Rightarrow> JStr ''Unknown'')
                in case extract_busyness_from_venue venue (itinerary_activity.day_of_week a) hour of
                     Inl e \<Rightarrow> (Inl e, n1)
                   | Inr extracted \<Rightarrow>
                       (case (case extracted of
                                Some v \<Rightarrow> (JFloat v, n1)
                              | None \<Rightarrow>
                                  if truthy vid \<and> itinerary_activity.day_of_week a \<noteq> None
                                  then forecast_cell w n1 hour
                                  else (JNull, n1)) of
                          (busyness_at_time, n2) \<Rightarrow>
                            (let info = (case venue of
                                           JDict kvs \<Rightarrow>
                                             FoundVenue (dget kvs ''venue_address'' JNull)
                                               (dget kvs ''venue_type'' JNull)
                                         | _ \<Rightarrow> FoundVenue JNull JNull)
                             in if busyness_at_time = JNull then
                                  (Inr ((predicted_entry a hour None)
                                         \<lparr>venue_name := vname, venue_id := vid,
                                          venue_info := info\<rparr>), n2)
                                else if \<not> is_number busyness_at_time then (Inl TypeError, n2)
                                else
                                  (Inr \<lparr>activity = itinerary_activity.title a,
                                        venue_name = vname,
                                        venue_id = vid,
                                        busyness_at_planned_time = num_val busyness_at_time,
                                        optimization_tip =
                                          MeasuredTip (measured_tip (num_val busyness_at_time)),
                                        venue_info = info,
                                        api_available = None,
                                        is_predicted = False\<rparr>, n2))))))"

text \<open>The loop over the activities: the entries appended and the exchange counter.\<close>

fun analyze_loop ::
  "bool \<Rightarrow> world \<Rightarrow> nat \<Rightarrow> itinerary_activity list \<Rightarrow> analysis_entry list \<times> nat" where
  "analyze_loop available w n [] = ([], n)"
| "analyze_loop available w n (a # rest) =
     (let hour = parse_hour (itinerary_activity.start_time a) in
      if \<not> available then
        (case analyze_loop available w n rest of
           (entries, n') \<Rightarrow> (predicted_entry a hour (Some False) # entries, n'))
      else
        (case lookup_entry w n a hour of
           (result, n1) \<Rightarrow>
             (case analyze_loop available w n1 rest of
                (entries, n') \<Rightarrow>
                  ((case result of
                      Inl e \<Rightarrow> predicted_entry a hour None
                    | Inr entry \<Rightarrow> entry) # entries, n'))))"

definition analyze_itinerary ::
  "besttime_client option \<Rightarrow> world \<Rightarrow> nat \<Rightarrow> analyze_itinerary_request
     \<Rightarrow> analyze_itinerary_response \<times> nat" where
  "analyze_itinerary bt w n req =
     (let available = api_available_of bt in
      case analyze_loop (available = Some True) w n (analyze_itinerary_request.activities req) of
        (results, n') \<Rightarrow>
          (\<lparr>destination = analyze_itinerary_request.destination req,
            analysis = results,
            api_configured = available\<rparr>, n'))"

text \<open>
  The handler of \<open>POST /venue-search\<close>: the payload of the client, or the exception that
  the web framework turns into an error response.
\<close>

definition venue_search_endpoint ::
  "besttime_client option \<Rightarrow> world \<Rightarrow> nat \<Rightarrow> (py_exn + json) \<times> nat" where
  "venue_search_endpoint bt w n =
     (if api_available_of bt \<noteq> Some True then (Inl (HTTPException 503), n)
      else
        (case venue_search w n of
           (Inl e, n') \<Rightarrow> (Inl (HTTPException 502), n')
         | (Inr data, n') \<Rightarrow> (Inr data, n')))"

text \<open>
  The three strategies of \<open>extract_busyness_from_venue\<close>, stated on the parts of the
  payload that they read: the forecast object of the venue (the first truthy one of the
  keys \<open>venue_foot_traffic_forecast\<close> and \<open>forecast\<close>, else the empty object), the
  analysis of that object, the lists \<open>day_raw\<close> and \<open>week_raw\<close> of the analysis, and
  the fields of the venue. A \<open>day_raw\<close> or \<open>week_raw\<close> that is absent, \<open>null\<close> or any
  other value that is not a list has no entries. A venue is well formed when its forecast
  object and the analysis are objects and each of \<open>day_raw\<close> and \<open>week_raw\<close> is a list
  or a falsy value (absent, \<open>null\<close>, empty).
\<close>

definition forecast_object :: "(string \<times> json) list \<Rightarrow> json" where
  "forecast_object v =
     (if truthy (dget v ''venue_foot_traffic_forecast'' JNull)
      then dget v ''venue_foot_traffic_forecast'' JNull
      else if truthy (dget v ''forecast'' JNull) then dget v ''forecast'' JNull
      else JDict [])"

definition analysis_of :: "(string \<times> json) list \<Rightarrow> json" where
  "analysis_of v =
     (case forecast_object v of JDict ft \<Rightarrow> dget ft ''analysis'' (JDict []) | _ \<Rightarrow> JNull)"

definition day_raw_of :: "(string \<times> json) list \<Rightarrow> json" where
  "day_raw_of v = (case analysis_of v of JDict a \<Rightarrow> dget a ''day_raw'' (JList []) | _ \<Rightarrow> JNull)"

definition week_raw_of :: "(string \<times> json) list \<Rightarrow> json" where
  "week_raw_of v = (case analysis_of v of JDict a \<Rightarrow> dget a ''week_raw'' (JList []) | _ \<Rightarrow> JNull)"

definition list_or_falsy :: "json \<Rightarrow> bool" where
  "list_or_falsy j = (case j of JList xs \<Rightarrow> True | _ \<Rightarrow> \<not> truthy j)"

definition well_formed_venue :: "(string \<times> json) list \<Rightarrow> bool" where
  "well_formed_venue v =
     (case analysis_of v of
        JDict a \<Rightarrow> list_or_falsy (day_raw_of v) \<and> list_or_falsy (week_raw_of v)
      | _ \<Rightarrow> False)"

definition strategy_hour_cell :: "json list \<Rightarrow> int option \<Rightarrow> int option \<Rightarrow> rat option" where
  "strategy_hour_cell day_raw d h =
     (case (d, h) of
        (Some d', Some h') \<Rightarrow>
          if 0 \<le> h' \<and> h' < int (length day_raw) \<and> is_number (day_raw ! nat h')
             \<and> 0 \<le> num_val (day_raw ! nat h')
          then Some (py_float (num_of (day_raw ! nat h')))
          else None
      | _ \<Rightarrow> None)"

definition strategy_week_mean :: "json list \<Rightarrow> rat option" where
  "strategy_week_mean week_raw =
     (let hs = week_positive_hours week_raw in
      if hs = [] then None else Some (py_round_float 1 (py_mean hs)))"

definition strategy_direct_field :: "(string \<times> json) list \<Rightarrow> rat option" where
  "strategy_direct_field v =
     (case filter is_number
             (map (\<lambda>k. dget v k JNull) [''venue_forecasted_busyness'', ''busyness'', ''busy_pct'']) of
        [] \<Rightarrow> None
      | x # xs \<Rightarrow> Some (py_float (num_of x)))"

definition first_success :: "'a option list \<Rightarrow> 'a option" where
  "first_success rs = (case filter (\<lambda>r. r \<noteq> None) rs of [] \<Rightarrow> None | r # rest \<Rightarrow> r)"

definition three_strategies :: "(string \<times> json) list \<Rightarrow> int option \<Rightarrow> int option \<Rightarrow> rat option" where
  "three_strategies v d h =
     first_success [strategy_hour_cell (list_or_empty (day_raw_of v)) d h,
                    strategy_week_mean (list_or_empty (week_raw_of v)),
                    strategy_direct_field v]"

text \<open>
  The first strategy as the description words it: the cell at row \<open>day_of_week\<close> and
  column \<open>hour\<close> of the 7 by 24 week matrix of the forecast, when both are given and in
  range.
\<close>

definition described_day_hour_cell :: "json \<Rightarrow> int option \<Rightarrow> int option \<Rightarrow> rat option" where
  "described_day_hour_cell venue d h =
     (case venue of
        JDict v \<Rightarrow>
          (case (d, h) of
             (Some d', Some h') \<Rightarrow>
               if 0 \<le> d' \<and> d' < int (length (list_or_empty (week_raw_of v))) \<and> d' < 7
                  \<and> 0 \<le> h' \<and> h' < 24
               then (case list_or_empty (week_raw_of v) ! nat d' of
                       JList cells \<Rightarrow>
                         if h' < int (length cells) \<and> is_number (cells ! nat h')
                         then Some (py_float (num_of (cells ! nat h'))) else None
                     | _ \<Rightarrow> None)
               else None
           | _ \<Rightarrow> None)
      | _ \<Rightarrow> None)"

text \<open>
  Example payloads: a venue whose forecast has the week matrix only (20 at Monday 0h, 80
  everywhere else); a venue whose forecast has the list \<open>day_raw\<close> only; a venue with
  both lists; and a venue whose forecast has \<open>null\<close> for both.
\<close>

definition venue_with_week_matrix :: json where
  "venue_with_week_matrix =
     JDict [(''venue_name'', JStr ''Marina Beach''),
            (''venue_foot_traffic_forecast'',
             JDict [(''analysis'',
                     JDict [(''week_raw'',
                             JList (JList (JInt 20 # replicate 23 (JInt 80))
                                    # replicate 6 (JList (replicate 24 (JInt 80)))))])])]"

definition venue_with_day_raw :: json where
  "venue_with_day_raw =
     JDict [(''venue_name'', JStr ''Marina Beach''),
            (''venue_foot_traffic_forecast'',
             JDict [(''analysis'', JDict [(''day_raw'', JList (replicate 24 (JInt 35)))])])]"

definition venue_with_both :: "(string \<times> json) list" where
  "venue_with_both =
     [(''venue_foot_traffic_forecast'',
       JDict [(''analysis'',
               JDict [(''day_raw'', JList [JInt 10, JInt 0, JStr ''n/a'']),
                      (''week_raw'', JList [JList [JInt 30, JInt 0, JInt 45], JNull])])]),
      (''busyness'', JInt 55)]"

definition venue_with_null_lists :: "(string \<times> json) list" where
  "venue_with_null_lists =
     [(''venue_foot_traffic_forecast'',
       JDict [(''analysis'', JDict [(''day_raw'', JNull), (''week_raw'', JNull)])]),
      (''busy_pct'', JInt 12)]"

section \<open>Elderly router (routers/elderly.py)\<close>

record elderly_activity =
  title :: string
  description :: "string option"
  location :: "string option"
  is_outdoor :: bool
  duration_minutes :: "int option"
  category :: "string option"
  day_of_week :: "int option"
  start_time :: "string option"

record elderly_optimize_request =
  destination :: string
  activities :: "elderly_activity list"

record elderly_search_request =
  destination :: string
  types :: "string list option"
  num :: int

text \<open>
  The dictionaries that the two handlers of this router build and pass to
  \<open>rank_activities_for_elderly\<close>. The name, the busyness and the description may come
  straight from a payload of the service, so they are JSON values (\<open>JNull\<close> for \<open>None\<close>);
  \<open>has_seating\<close> is always \<open>True\<close>.
\<close>

record raw_activity =
  raw_name :: json
  raw_busyness_pct :: json
  raw_is_outdoor :: bool
  raw_duration_minutes :: "int option"
  raw_type :: "string option"
  raw_description :: json
  raw_distance_km :: "rat option"
  raw_estimated_steps :: "int option"

text \<open>
  What scoring one such dictionary does with the untyped fields, in the order in which
  \<open>score_venue_for_elderly\<close> uses them: \<open>100 - busyness_pct\<close> raises \<open>TypeError\<close> on a
  value that is neither \<open>None\<close> nor a number; \<open>description.lower()\<close> raises
  \<open>AttributeError\<close> on a truthy value that is not a string; the constructor of
  \<open>VenueScore\<close> rejects a name that is not a string. When none of them raises, the
  dictionary is the typed one of the scorer. The list comprehension of
  \<open>rank_activities_for_elderly\<close> scores the dictionaries in order, so the first
  exception is the one that is raised.
\<close>

definition typed_activity :: "raw_activity \<Rightarrow> py_exn + activity_dict" where
  "typed_activity r =
     (if raw_busyness_pct r \<noteq> JNull \<and> \<not> is_number (raw_busyness_pct r) then Inl TypeError
      else if truthy (raw_description r) \<and> (case raw_description r of JStr s \<Rightarrow> False | _ \<Rightarrow> True)
        then Inl AttributeError
      else if truthy (raw_name r) \<and> (case raw_name r of JStr s \<Rightarrow> False | _ \<Rightarrow> True)
        then Inl ValidationError
      else
        Inr \<lparr>activity_dict.name = (case raw_name r of JStr s \<Rightarrow> Some s | _ \<Rightarrow> None),
             activity_dict.title = None,
             activity_dict.busyness_pct =
               (if raw_busyness_pct r = JNull then None else Some (num_val (raw_busyness_pct r))),
             activity_dict.is_outdoor = Value (raw_is_outdoor r),
             activity_dict.duration_minutes = raw_duration_minutes r,
             activity_dict.type' = raw_type r,
             activity_dict.category = None,
             activity_dict.description =
               (case raw_description r of JStr s \<Rightarrow> Some s | _ \<Rightarrow> None),
             activity_dict.has_seating = Value True,
             activity_dict.distance_km = raw_distance_km r,
             activity_dict.estimated_steps = raw_estimated_steps r\<rparr>)"

fun typed_activities :: "raw_activity list \<Rightarrow> py_exn + activity_dict list" where
  "typed_activities [] = Inr []"
| "typed_activities (r # rs) =
     (case typed_activity r of
        Inl e \<Rightarrow> Inl e
      | Inr a \<Rightarrow> (case typed_activities rs of Inl e \<Rightarrow> Inl e | Inr as \<Rightarrow> Inr (a # as)))"

definition rank_raw_activities :: "raw_activity list \<Rightarrow> py_exn + venue_score list" where
  "rank_raw_activities rs =
     (case typed_activities rs of
        Inl e \<Rightarrow> Inl e
      | Inr acts \<Rightarrow> Inr (rank_activities_for_elderly acts))"

text \<open>
  \<open>sum(xs) / len(xs)\<close> raises \<open>ZeroDivisionError\<close> on an empty list.
  \<open>itinerary_score\<close> is the expression
  \<open>round(sum(scores) / len(scores), 1) if scores else 0\<close> of the two itinerary handlers;
  the scores are floats.
\<close>

definition py_mean_checked :: "py_num list \<Rightarrow> py_exn + rat" where
  "py_mean_checked xs = (if xs = [] then Inl ZeroDivisionError else Inr (py_mean xs))"

definition itinerary_score :: "rat list \<Rightarrow> py_exn + rat" where
  "itinerary_score scores =
     (if scores \<noteq> [] then
        (case py_mean_checked (map PFloat scores) of
           Inl e \<Rightarrow> Inl e
         | Inr m \<Rightarrow> Inr (py_round_float 1 m))
      else Inr 0)"

text \<open>
  The inner \<open>try\<close> of \<open>optimize_itinerary\<close> (the forecast of the planned day) and the
  weekly average that follows it; both yield the new value of \<open>busyness\<close>, \<open>JNull\<close>
  when nothing is assigned.
\<close>

definition elderly_forecast_cell :: "world \<Rightarrow> nat \<Rightarrow> string option \<Rightarrow> json \<times> nat" where
  "elderly_forecast_cell w n start =
     (case get_forecast_day w n of
        (Inl e, n') \<Rightarrow> (JNull, n')
      | (Inr forecast, n') \<Rightarrow>
          (case forecast of
             JDict kvs \<Rightarrow>
               if truthy_str start then
                 (case py_int (hour_text (or_empty start)) of
                    Inl e \<Rightarrow> (JNull, n')
                  | Inr hour \<Rightarrow>
                      (case day_raw_cell (dget kvs ''analysis'' (JDict [])) (Some hour) of
                         Inl e \<Rightarrow> (JNull, n')
                       | Inr None \<Rightarrow> (JNull, n')
                       | Inr (Some val) \<Rightarrow> (val, n')))
               else (JNull, n')
           | _ \<Rightarrow> (JNull, n')))"

definition elderly_week_average :: "(string \<times> json) list \<Rightarrow> py_exn + rat option" where
  "elderly_week_average venue =
     (let ft0 = dget venue ''venue_foot_traffic_forecast'' (JDict []);
          ft = (if truthy ft0 then ft0 else JDict []);
          analysis = (case ft of JDict f \<Rightarrow> dget f ''analysis'' (JDict []) | _ \<Rightarrow> JDict [])
      in week_mean analysis)"

text \<open>
  The outer \<open>try\<close> for one activity: the value of \<open>busyness\<close> after it (\<open>JNull\<close> when
  nothing was found or an exception was caught) and the exchange counter.
\<close>

definition elderly_api_busyness :: "world \<Rightarrow> nat \<Rightarrow> elderly_activity \<Rightarrow> json \<times> nat" where
  "elderly_api_busyness w n a =
     (case venue_search w n of
        (Inl e, n1) \<Rightarrow> (JNull, n1)
      | (Inr data, n1) \<Rightarrow>
          (case extract_venues_from_progress data of
             [] \<Rightarrow> (JNull, n1)
           | venue # others \<Rightarrow>
               (case venue of
                  JDict kvs \<Rightarrow>
                    (case (if truthy (dget kvs ''venue_id'' JNull)
                              \<and> elderly_activity.day_of_week a \<noteq> None
                           then elderly_forecast_cell w n1 (elderly_activity.start_time a)
                           else (JNull, n1)) of
                       (busyness, n2) \<Rightarrow>
                         if busyness \<noteq> JNull then (busyness, n2)
                         else
                           (case elderly_week_average kvs of
                              Inl e \<Rightarrow> (JNull, n2)
                            | Inr None \<Rightarrow> (JNull, n2)
                            | Inr (Some m) \<Rightarrow> (JFloat m, n2)))
                | _ \<Rightarrow> (JNull, n1))))"

definition enrich_activity ::
  "bool \<Rightarrow> world \<Rightarrow> nat \<Rightarrow> elderly_activity \<Rightarrow> raw_activity \<times> nat" where
  "enrich_activity available w n a =
     (case (if available
               \<and> (truthy_str (elderly_activity.location a) \<or> elderly_activity.title a \<noteq> [])
            then elderly_api_busyness w n a
            else (JNull, n)) of
        (found, n') \<Rightarrow>
          (let busyness =
                 (if found = JNull then
                    JInt (fst (predict_busyness (elderly_activity.title a)
                                 (elderly_activity.location a)
                                 (parse_hour (elderly_activity.start_time a))
                                 (elderly_activity.day_of_week a)))
                  else found);
               dist_km = estimate_distance_from_duration (elderly_activity.duration_minutes a)
                           (elderly_activity.is_outdoor a) (elderly_activity.category a);
               steps = estimate_steps_from_duration (elderly_activity.duration_minutes a)
                         (elderly_activity.is_outdoor a) (elderly_activity.category a)
           in (\<lparr>raw_name = JStr (elderly_activity.title a),
                raw_busyness_pct = busyness,
                raw_is_outdoor = elderly_activity.is_outdoor a,
                raw_duration_minutes = elderly_activity.duration_minutes a,
                raw_type = elderly_activity.category a,
                raw_description =
                  (case elderly_activity.description a of None \<Rightarrow> JNull | Some s \<Rightarrow> JStr s),
                raw_distance_km = Some dist_km,
                raw_estimated_steps = Some steps\<rparr>, n')))"

fun enrich_loop ::
  "bool \<Rightarrow> world \<Rightarrow> nat \<Rightarrow> elderly_activity list \<Rightarrow> raw_activity list \<times> nat" where
  "enrich_loop available w n [] = ([], n)"
| "enrich_loop available w n (a # rest) =
     (case enrich_activity available w n a of
        (r, n1) \<Rightarrow>
          (case enrich_loop available w n1 rest of
             (rs, n') \<Rightarrow> (r # rs, n')))"

text \<open>
  The response of \<open>optimize_itinerary\<close>. The list of suggestion sentences, which is
  computed from the scored activities and cannot raise, is left out.
\<close>

record elderly_optimize_response =
  destination :: string
  scored_activities :: "venue_score list"
  overall_elderly_score :: rat
  api_configured :: "bool option"

definition optimize_itinerary ::
  "besttime_client option \<Rightarrow> world \<Rightarrow> nat \<Rightarrow> elderly_optimize_request
     \<Rightarrow> (py_exn + elderly_optimize_response) \<times> nat" where
  "optimize_itinerary bt w n req =
     (let available = api_available_of bt in
      case enrich_loop (available = Some True) w n (elderly_optimize_request.activities req) of
        (enriched_activities, n') \<Rightarrow>
          (case rank_raw_activities enriched_activities of
             Inl e \<Rightarrow> (Inl e, n')
           | Inr scored \<Rightarrow>
               (case itinerary_score (map venue_score.overall_score scored) of
                  Inl e \<Rightarrow> (Inl e, n')
                | Inr overall \<Rightarrow>
                    (Inr \<lparr>elderly_optimize_response.destination =
                            elderly_optimize_request.destination req,
                          elderly_optimize_response.scored_activities = scored,
                          elderly_optimize_response.overall_elderly_score = overall,
                          elderly_optimize_response.api_configured = available\<rparr>, n'))))"

text \<open>
  \<open>get_elderly_suggestions\<close>. An exception while the venues of one search are processed
  ends that search; the venues appended before it stay in the list. \<open>xs[:k]\<close> with a
  negative \<open>k\<close> drops the last \<open>-k\<close> elements.
\<close>

definition DEFAULT_SEARCH_TYPES :: "string list" where
  "DEFAULT_SEARCH_TYPES =
     [''museum'', ''cafe'', ''restaurant'', ''temple'', ''garden'', ''gallery'']"

definition suggestion_busyness :: "(string \<times> json) list \<Rightarrow> py_exn + rat option" where
  "suggestion_busyness v =
     (case dget v ''venue_foot_traffic_forecast'' JNull of
        JDict f \<Rightarrow> if f \<noteq> [] then week_mean (dget f ''analysis'' (JDict [])) else Inr None
      | _ \<Rightarrow> Inr None)"

fun collect_venues :: "string \<Rightarrow> json list \<Rightarrow> raw_activity list \<Rightarrow> raw_activity list" where
  "collect_venues venue_type [] all_venues = all_venues"
| "collect_venues venue_type (v # vs) all_venues =
     (case v of
        JDict kvs \<Rightarrow>
          (case suggestion_busyness kvs of
             Inl e \<Rightarrow> all_venues
           | Inr busyness \<Rightarrow>
               collect_venues venue_type vs
                 (all_venues @
                  [\<lparr>raw_name = dget kvs ''venue_name'' (JStr ''Unknown''),
                    raw_busyness_pct = (case busyness of None \<Rightarrow> JNull | Some b \<Rightarrow> JFloat b),
                    raw_is_outdoor = False,
                    raw_duration_minutes = Some 60,
                    raw_type = Some venue_type,
                    raw_description = dget kvs ''venue_type'' (JStr []),
                    raw_distance_km = None,
                    raw_estimated_steps = None\<rparr>]))
      | _ \<Rightarrow> collect_venues venue_type vs all_venues)"

fun search_types_loop ::
  "world \<Rightarrow> nat \<Rightarrow> string list \<Rightarrow> raw_activity list \<Rightarrow> raw_activity list \<times> nat" where
  "search_types_loop w n [] all_venues = (all_venues, n)"
| "search_types_loop w n (venue_type # rest) all_venues =
     (case venue_search w n of
        (Inl e, n1) \<Rightarrow> search_types_loop w n1 rest all_venues
      | (Inr data, n1) \<Rightarrow>
          search_types_loop w n1 rest
            (collect_venues venue_type (extract_venues_from_progress data) all_venues))"

definition py_slice_to :: "'a list \<Rightarrow> int \<Rightarrow> 'a list" where
  "py_slice_to xs k = (if 0 \<le> k then take (nat k) xs else take (length xs - nat (- k)) xs)"

definition get_elderly_suggestions ::
  "besttime_client option \<Rightarrow> world \<Rightarrow> nat \<Rightarrow> elderly_search_request
     \<Rightarrow> (py_exn + venue_score list) \<times> nat" where
  "get_elderly_suggestions bt w n req =
     (if api_available_of bt \<noteq> Some True then (Inl (HTTPException 503), n)
      else
        (let search_types =
               (case elderly_search_request.types req of
                  None \<Rightarrow> DEFAULT_SEARCH_TYPES
                | Some ts \<Rightarrow> if ts \<noteq> [] then ts else DEFAULT_SEARCH_TYPES)
         in case search_types_loop w n search_types [] of
              (all_venues, n') \<Rightarrow>
                if all_venues = [] then (Inl (HTTPException 404), n')
                else
                  (case rank_raw_activities all_venues of
                     Inl e \<Rightarrow> (Inl e, n')
                   | Inr scored \<Rightarrow>
                       (Inr (py_slice_to scored (elderly_search_request.num req)), n'))))"

section \<open>Child router (routers/child.py)\<close>

record child_activity =
  title :: string
  description :: "string option"
  location :: "string option"
  is_outdoor :: bool
  duration_minutes :: "int option"
  category :: "string option"

record child_optimize_request =
  destination :: string
  activities :: "child_activity list"

text \<open>
  The response of \<open>optimize_itinerary_for_children\<close>, without the suggestion sentences
  and the constant list of kid activities, which do not depend on the score.
\<close>

record child_optimize_response =
  destination :: string
  scored_activities :: "child_score list"
  overall_child_score :: rat

definition child_enriched :: "child_activity \<Rightarrow> activity_dict" where
  "child_enriched a =
     \<lparr>activity_dict.name = Some (child_activity.title a),
      activity_dict.title = None,
      activity_dict.busyness_pct = None,
      activity_dict.is_outdoor = Value (child_activity.is_outdoor a),
      activity_dict.duration_minutes = child_activity.duration_minutes a,
      activity_dict.type' = child_activity.category a,
      activity_dict.category = None,
      activity_dict.description = child_activity.description a,
      activity_dict.has_seating = Absent,
      activity_dict.distance_km = None,
      activity_dict.estimated_steps = None\<rparr>"

definition optimize_itinerary_for_children ::
  "string list \<Rightarrow> child_optimize_request \<Rightarrow> py_exn + child_optimize_response" where
  "optimize_itinerary_for_children types_order req =
     (let enriched = map child_enriched (child_optimize_request.activities req);
          scored = rank_activities_for_children types_order enriched
      in case itinerary_score (map child_score.overall_score scored) of
           Inl e \<Rightarrow> Inl e
         | Inr overall \<Rightarrow>
             Inr \<lparr>child_optimize_response.destination = child_optimize_request.destination req,
                  child_optimize_response.scored_activities = scored,
                  child_optimize_response.overall_child_score = overall\<rparr>)"

text \<open>
  The overall itinerary score as it is described: the unweighted arithmetic mean of the
  overall scores of the scored activities (a float sum divided by their number), rounded
  to one decimal, and 0 for no activity.
\<close>

definition described_itinerary_score :: "rat list \<Rightarrow> rat" where
  "described_itinerary_score scores =
     (if scores = [] then 0 else py_round_float 1 (py_mean (map PFloat scores)))"

text \<open>Example requests.\<close>

definition example_child_request :: child_optimize_request where
  "example_child_request =
     \<lparr>child_optimize_request.destination = ''Chennai'',
      child_optimize_request.activities =
        [\<lparr>child_activity.title = ''City Museum'',
          child_activity.description = None,
          child_activity.location = None,
          child_activity.is_outdoor = False,
          child_activity.duration_minutes = Some 60,
          child_activity.category = Some ''museum''\<rparr>]\<rparr>"

definition example_elderly_request :: elderly_optimize_request where
  "example_elderly_request =
     \<lparr>elderly_optimize_request.destination = ''Chennai'',
      elderly_optimize_request.activities =
        [\<lparr>elderly_activity.title = ''Marina Beach'',
          elderly_activity.description = None,
          elderly_activity.location = None,
          elderly_activity.is_outdoor = True,
          elderly_activity.duration_minutes = Some 90,
          elderly_activity.category = None,
          elderly_activity.day_of_week = Some 5,
          elderly_activity.start_time = Some ''18:00''\<rparr>]\<rparr>"

section \<open>Descriptions and examples for the handlers\<close>

text \<open>
  \<open>is_configured\<close> as it is described: both credentials are present and neither equals
  a placeholder value, the placeholders being the two strings that the source names.
\<close>

definition described_is_configured :: "besttime_client \<Rightarrow> bool" where
  "described_is_configured c =
     (api_key_private c \<noteq> [] \<and> api_key_public c \<noteq> []
      \<and> api_key_private c \<noteq> ''your_private_key'' \<and> api_key_public c \<noteq> ''your_public'')"

text \<open>
  What an entry of the itinerary analysis says about its activity: it carries the title;
  if it is marked as predicted, its busyness and its tip are those of the predictor for
  the activity; and when the service is not available it is marked as predicted and has
  the key \<open>api_available\<close> with the value \<open>False\<close>.
\<close>

definition entry_for :: "bool \<Rightarrow> itinerary_activity \<Rightarrow> analysis_entry \<Rightarrow> bool" where
  "entry_for available a e =
     (let prediction = predict_busyness (itinerary_activity.title a)
                         (itinerary_activity.location a)
                         (parse_hour (itinerary_activity.start_time a))
                         (itinerary_activity.day_of_week a)
      in analysis_entry.activity e = itinerary_activity.title a
         \<and> (if analysis_entry.is_predicted e
            then analysis_entry.busyness_at_planned_time e = of_int (fst prediction)
                 \<and> analysis_entry.optimization_tip e = PredictedTip (fst (snd prediction))
            else available)
         \<and> (if available then True
            else analysis_entry.is_predicted e \<and> analysis_entry.api_available e = Some False))"

text \<open>Example clients, services and requests.\<close>

definition example_client :: besttime_client where
  "example_client = \<lparr>api_key_private = ''pri_4f2a'', api_key_public = ''pub_9c1d''\<rparr>"

definition placeholder_client :: besttime_client where
  "placeholder_client =
     \<lparr>api_key_private = ''your_private_key_here'', api_key_public = ''pub_9c1d''\<rparr>"

definition world_failing :: world where
  "world_failing i = Inl TransportError"

definition example_search_request :: elderly_search_request where
  "example_search_request =
     \<lparr>elderly_search_request.destination = ''Chennai'',
      elderly_search_request.types = None,
      elderly_search_request.num = 10\<rparr>"

definition example_itinerary_request :: analyze_itinerary_request where
  "example_itinerary_request =
     \<lparr>analyze_itinerary_request.destination = ''Chennai'',
      analyze_itinerary_request.activities =
        [\<lparr>itinerary_activity.title = ''Marina Beach'',
          itinerary_activity.location = None,
          itinerary_activity.start_time = Some ''18:30'',
          itinerary_activity.day_of_week = Some 5\<rparr>]\<rparr>"

section \<open>Properties of the elderly scorer\<close>

lemma clamp100_mono: "x \<le> y \<Longrightarrow> clamp100 x \<le> clamp100 (y::'a::{linordered_idom})"
  unfolding clamp100_def by (simp add: max_def min_def)

lemma clamp100_range: "0 \<le> clamp100 x \<and> clamp100 x \<le> (100::'a::{linordered_idom})"
  unfolding clamp100_def by simp

lemma clamp100_id: "0 \<le> x \<Longrightarrow> x \<le> 100 \<Longrightarrow> clamp100 x = (x::'a::{linordered_idom})"
  unfolding clamp100_def by simp

lemma steps_adjust_shift: "steps_adjust s (score + c) = steps_adjust s score + c"
  unfolding steps_adjust_def by (simp split: option.split)

lemma steps_adjust_antimono:
  "s1 \<le> s2 \<Longrightarrow> steps_adjust (Some s2) score \<le> steps_adjust (Some s1) score"
  unfolding steps_adjust_def by simp

lemma duration_adjust_mono: "x \<le> y \<Longrightarrow> duration_adjust d x \<le> duration_adjust d y"
  unfolding duration_adjust_def by (simp add: Let_def)

lemma type_adjust_mono: "x \<le> y \<Longrightarrow> type_adjust v x \<le> type_adjust v y"
  unfolding type_adjust_def by (simp add: Let_def)

lemma description_adjust_mono: "x \<le> y \<Longrightarrow> description_adjust d x \<le> description_adjust d y"
  unfolding description_adjust_def by (simp add: Let_def)

text \<open>
  Claim C10. \<open>compute_accessibility_score\<close> returns exactly 60, plus 20 when indoor, plus 10
  when seating is available, plus 10 when the lower-cased venue type is a member of the
  low-effort set; the result therefore lies between 60 and 100 and never falls below 60.
\<close>

theorem accessibility_score_exact:
  "compute_accessibility_score is_indoor venue_type seating =
     60 + (if is_indoor then 20 else 0) + (if seating then 10 else 0)
        + (if (\<exists>v. venue_type = Some v \<and> py_lower v \<in> set LOW_EFFORT_TYPES) then 10 else 0)
   \<and> 60 \<le> compute_accessibility_score is_indoor venue_type seating
   \<and> compute_accessibility_score is_indoor venue_type seating \<le> 100"
proof -
  have low: "[] \<notin> set LOW_EFFORT_TYPES"
    by (simp add: LOW_EFFORT_TYPES_def)
  have mem: "(truthy_str venue_type \<and> py_lower (the venue_type) \<in> set LOW_EFFORT_TYPES)
      = (\<exists>v. venue_type = Some v \<and> py_lower v \<in> set LOW_EFFORT_TYPES)"
    using low by (cases venue_type) (auto simp: truthy_str_def py_lower_def)
  show ?thesis
    unfolding compute_accessibility_score_def Let_def mem clamp100_def by simp
qed

text \<open>
  Claim C7. Two calls of \<open>compute_walkability_score\<close> that differ only in
  \<open>estimated_steps\<close>: the call with the larger step count never returns the larger score.
\<close>

theorem walkability_steps_antimono:
  assumes "s1 \<le> s2"
  shows "compute_walkability_score outdoor duration venue_type descr
           distance (Some s2)
       \<le> compute_walkability_score outdoor duration venue_type descr
           distance (Some s1)"
proof -
  let ?d = "distance_adjust distance 70"
  have a: "steps_adjust (Some s2) ?d \<le> steps_adjust (Some s1) ?d"
    using assms by (rule steps_adjust_antimono)
  have b: "(if outdoor then steps_adjust (Some s2) ?d - 10 else steps_adjust (Some s2) ?d)
         \<le> (if outdoor then steps_adjust (Some s1) ?d - 10 else steps_adjust (Some s1) ?d)"
    using a by simp
  show ?thesis
    unfolding compute_walkability_score_def Let_def
    by (intro clamp100_mono description_adjust_mono type_adjust_mono duration_adjust_mono b)
qed

theorem walkability_steps_antimono_witness:
  "(2000::int) \<le> 9000
   \<and> compute_walkability_score True (Some 150) None None (Some 2) (Some 9000) = 5
   \<and> compute_walkability_score True (Some 150) None None (Some 2) (Some 2000) = 35
   \<and> compute_walkability_score True (Some 150) None None (Some 2) (Some 9000)
     \<le> compute_walkability_score True (Some 150) None None (Some 2) (Some 2000)"
proof -
  have h: "(2000::int) \<le> 9000" by simp
  have v1: "compute_walkability_score True (Some 150) None None (Some 2) (Some 9000) = 5"
    by (simp add: compute_walkability_score_def distance_adjust_def steps_adjust_def
        duration_adjust_def type_adjust_def description_adjust_def truthy_int_def
        truthy_str_def clamp100_def)
  have v2: "compute_walkability_score True (Some 150) None None (Some 2) (Some 2000) = 35"
    by (simp add: compute_walkability_score_def distance_adjust_def steps_adjust_def
        duration_adjust_def type_adjust_def description_adjust_def truthy_int_def
        truthy_str_def clamp100_def)
  from walkability_steps_antimono [OF h, of True "Some 150" None None "Some 2"] h v1 v2
  show ?thesis by simp
qed

section \<open>Properties of the crowd predictor\<close>

lemma py_round_mono:
  assumes "x \<le> y"
  shows "py_round x \<le> py_round y"
proof (cases "\<lfloor>x\<rfloor> = \<lfloor>y\<rfloor>")
  case True
  then show ?thesis
    using assms unfolding py_round_def Let_def by auto
next
  case False
  then have lt: "\<lfloor>x\<rfloor> < \<lfloor>y\<rfloor>"
    using floor_mono [OF assms] by linarith
  have a: "py_round x \<le> \<lfloor>x\<rfloor> + 1"
    unfolding py_round_def Let_def by auto
  have b: "\<lfloor>y\<rfloor> \<le> py_round y"
    unfolding py_round_def Let_def by auto
  show ?thesis
    using lt a b by linarith
qed

lemma py_round_nonneg: "0 \<le> x \<Longrightarrow> 0 \<le> py_round x"
  using py_round_mono [of 0 x] by (simp add: py_round_def)

lemma py_round_of_int [simp]: "py_round (of_int n) = n"
  by (simp add: py_round_def)

lemma py_round_minus: "py_round (- x) = - py_round x"
proof (cases "x = of_int \<lfloor>x\<rfloor>")
  case True
  then obtain n where "x = of_int n" ..
  then have "py_round (- x) = py_round (of_int (- n))" by simp
  also have "\<dots> = - n" by (simp only: py_round_of_int)
  finally show ?thesis using \<open>x = of_int n\<close> by simp
next
  case False
  then have fl_neg: "\<lfloor>- x\<rfloor> = - \<lfloor>x\<rfloor> - 1"
    by (metis ceiling_def ceiling_altdef diff_minus_eq_add minus_diff_eq floor_minus add.inverse_inverse uminus_add_conv_diff)
  show ?thesis
    unfolding py_round_def Let_def fl_neg
    by (auto simp add: algebra_simps)
qed

lemma binade_bounds:
  assumes "x \<noteq> 0"
  shows "2 powi (binade x) \<le> \<bar>x\<bar>" and "\<bar>x\<bar> < 2 powi (binade x + 1)"
proof -
  have both: "2 powi (binade x) \<le> \<bar>x\<bar> \<and> \<bar>x\<bar> < 2 powi (binade x + 1)"
  proof (cases "1 \<le> \<bar>x\<bar>")
    case True
    define n where "n = \<lfloor>\<bar>x\<bar>\<rfloor>"
    have n: "0 < n" using True by (simp add: n_def)
    have b: "2 ^ nat (bitlen n - 1) \<le> n" "n < 2 ^ nat (bitlen n)"
      using bitlen_bounds [OF n] by simp_all
    have b1: "1 \<le> bitlen n" using n by (simp add: bitlen_alt_def)
    have "(2::rat) powi (bitlen n - 1) = 2 ^ nat (bitlen n - 1)"
      using b1 by (simp add: power_int_def)
    also have "\<dots> = of_int (2 ^ nat (bitlen n - 1))" by simp
    also have "\<dots> \<le> of_int n" using b(1) by (simp only: of_int_le_iff)
    also have "\<dots> \<le> \<bar>x\<bar>" by (simp add: n_def)
    finally have lo: "(2::rat) powi (bitlen n - 1) \<le> \<bar>x\<bar>" .
    have "\<bar>x\<bar> < of_int (n + 1)"
      using floor_correct [of "\<bar>x\<bar>"] by (simp add: n_def)
    also have "\<dots> \<le> of_int (2 ^ nat (bitlen n))"
    proof -
      have "n + 1 \<le> 2 ^ nat (bitlen n)" using b(2) by simp
      then show ?thesis by (simp only: of_int_le_iff)
    qed
    also have "\<dots> = (2::rat) powi (bitlen n)"
      using b1 by (simp add: power_int_def)
    finally have hi: "\<bar>x\<bar> < (2::rat) powi (bitlen n)" .
    from lo hi True show ?thesis
      by (simp add: binade_def n_def)
  next
    case False
    define y where "y = 1 / \<bar>x\<bar>"
    have xpos: "0 < \<bar>x\<bar>" using assms by simp
    have y1: "1 < y" using False xpos by (simp add: y_def)
    define m where "m = \<lceil>y\<rceil> - 1"
    have m: "0 < m" using y1 by (simp add: m_def less_ceiling_iff)
    have b: "2 ^ nat (bitlen m - 1) \<le> m" "m < 2 ^ nat (bitlen m)"
      using bitlen_bounds [OF m] by simp_all
    have b1: "1 \<le> bitlen m" using m by (simp add: bitlen_alt_def)
    have "y \<le> of_int (m + 1)"
      using ceiling_correct [of y] by (simp add: m_def)
    also have "\<dots> \<le> of_int (2 ^ nat (bitlen m))"
    proof -
      have "m + 1 \<le> 2 ^ nat (bitlen m)" using b(2) by simp
      then show ?thesis by (simp only: of_int_le_iff)
    qed
    also have "\<dots> = (2::rat) ^ nat (bitlen m)" by simp
    finally have yle: "y \<le> 2 ^ nat (bitlen m)" .
    have "of_int (2 ^ nat (bitlen m - 1)) \<le> (of_int m :: rat)"
      using b(1) by (simp only: of_int_le_iff)
    also have "(of_int m :: rat) < y"
      using ceiling_correct [of y] by (simp add: m_def)
    finally have ylt: "(2::rat) ^ nat (bitlen m - 1) < y" by simp
    have x_eq: "\<bar>x\<bar> = 1 / y" using xpos by (simp add: y_def)
    have lo: "(2::rat) powi (- bitlen m) \<le> \<bar>x\<bar>"
    proof -
      have "1 / (2::rat) ^ nat (bitlen m) \<le> 1 / y"
        using yle y1 by (simp add: frac_le)
      then show ?thesis
        using b1 by (simp add: x_eq power_int_def inverse_eq_divide power_one_over)
    qed
    have hi: "\<bar>x\<bar> < (2::rat) powi (- bitlen m + 1)"
    proof -
      have "1 / y < 1 / (2::rat) ^ nat (bitlen m - 1)"
        using ylt by (simp add: frac_less2)
      moreover have "(2::rat) powi (- bitlen m + 1) = 1 / 2 ^ nat (bitlen m - 1)"
      proof (cases "bitlen m = 1")
        case True
        then show ?thesis by simp
      next
        case False
        with b1 have "- bitlen m + 1 < 0" by simp
        then show ?thesis
          by (simp add: power_int_def inverse_eq_divide nat_diff_distrib power_one_over)
      qed
      ultimately show ?thesis by (simp add: x_eq)
    qed
    from lo hi False show ?thesis
      by (simp add: binade_def y_def m_def)
  qed
  from both show "2 powi (binade x) \<le> \<bar>x\<bar>" and "\<bar>x\<bar> < 2 powi (binade x + 1)"
    by simp_all
qed


lemma binade_minus [simp]: "binade (- x) = binade x"
  by (simp add: binade_def)

lemma fl_minus: "fl (- x) = - fl x"
  by (simp add: fl_def Let_def py_round_minus)

lemma fl_0 [simp]: "fl 0 = 0"
  by (simp add: fl_def)

lemma fl_pos_bounds:
  assumes "0 < x"
  shows "2 powi (binade x) \<le> fl x" and "fl x \<le> 2 powi (binade x + 1)"
proof -
  define u :: rat where "u = 2 powi (binade x - 52)"
  have u: "0 < u" by (simp add: u_def)
  have x0: "x \<noteq> 0" using assms by simp
  have lo: "2 powi (binade x) \<le> x" and hi: "x < 2 powi (binade x + 1)"
    using binade_bounds [OF x0] assms by simp_all
  have p52: "(2::rat) powi (binade x) = 2 ^ 52 * u"
    unfolding u_def by (simp add: power_int_diff)
  have p53: "(2::rat) powi (binade x + 1) = 2 ^ 53 * u"
    unfolding u_def by (simp add: power_int_diff power_int_add)
  have "of_int (2 ^ 52) \<le> x / u"
    using lo u by (simp add: p52 pos_le_divide_eq)
  then have "py_round (of_int (2 ^ 52)) \<le> py_round (x / u)"
    by (rule py_round_mono)
  then have a: "2 ^ 52 \<le> py_round (x / u)"
    by (simp only: py_round_of_int)
  have "x / u \<le> of_int (2 ^ 53)"
    using hi u by (simp add: p53 pos_divide_le_eq)
  then have "py_round (x / u) \<le> py_round (of_int (2 ^ 53))"
    by (rule py_round_mono)
  then have b: "py_round (x / u) \<le> 2 ^ 53"
    by (simp only: py_round_of_int)
  have f: "fl x = of_int (py_round (x / u)) * u"
    using x0 by (simp add: fl_def u_def Let_def)
  have "(of_int (2 ^ 52) :: rat) \<le> of_int (py_round (x / u))"
    using a by (simp only: of_int_le_iff)
  then have "(2::rat) ^ 52 * u \<le> of_int (py_round (x / u)) * u"
    using u by (simp add: mult_right_mono)
  then show "2 powi (binade x) \<le> fl x" by (simp only: f p52)
  have "(of_int (py_round (x / u)) :: rat) \<le> of_int (2 ^ 53)"
    using b by (simp only: of_int_le_iff)
  then have "of_int (py_round (x / u)) * u \<le> (2::rat) ^ 53 * u"
    using u by (simp add: mult_right_mono)
  then show "fl x \<le> 2 powi (binade x + 1)" by (simp only: f p53)
qed

lemma binade_mono_pos:
  assumes "0 < x" and "x \<le> y"
  shows "binade x \<le> binade y"
proof -
  have "2 powi (binade x) \<le> x"
    using binade_bounds(1) [of x] assms by simp
  also have "x \<le> y" by fact
  also have "y < 2 powi (binade y + 1)"
    using binade_bounds(2) [of y] assms by simp
  finally have lt: "(2::rat) powi (binade x) < 2 powi (binade y + 1)" .
  have "binade x < binade y + 1"
  proof (rule ccontr)
    assume "\<not> binade x < binade y + 1"
    then have "binade y + 1 \<le> binade x" by simp
    then have "(2::rat) powi (binade y + 1) \<le> 2 powi (binade x)"
      by (simp add: power_int_increasing)
    with lt show False by simp
  qed
  then show ?thesis by simp
qed

lemma fl_mono_pos:
  assumes "0 < x" and "x \<le> y"
  shows "fl x \<le> fl y"
proof (cases "binade x = binade y")
  case True
  have "x / 2 powi (binade y - 52) \<le> y / 2 powi (binade y - 52)"
    using assms(2) by (simp add: divide_right_mono)
  then have "py_round (x / 2 powi (binade y - 52)) \<le> py_round (y / 2 powi (binade y - 52))"
    by (rule py_round_mono)
  then have "(of_int (py_round (x / 2 powi (binade y - 52))) :: rat) * 2 powi (binade y - 52)
             \<le> of_int (py_round (y / 2 powi (binade y - 52))) * 2 powi (binade y - 52)"
    by (simp add: mult_right_mono)
  then show ?thesis
    using assms True by (simp add: fl_def Let_def)
next
  case False
  with binade_mono_pos [OF assms] have "binade x + 1 \<le> binade y" by simp
  then have "(2::rat) powi (binade x + 1) \<le> 2 powi (binade y)"
    by (simp add: power_int_increasing)
  moreover have "fl x \<le> 2 powi (binade x + 1)"
    using assms(1) by (rule fl_pos_bounds)
  moreover have "2 powi (binade y) \<le> fl y"
    using assms by (intro fl_pos_bounds) simp
  ultimately show ?thesis by linarith
qed

lemma fl_nonneg: "0 \<le> x \<Longrightarrow> 0 \<le> fl x"
proof (cases "x = 0")
  case True
  then show ?thesis by simp
next
  case False
  assume "0 \<le> x"
  with False have "0 < x" by simp
  then have "2 powi (binade x) \<le> fl x" by (rule fl_pos_bounds)
  moreover have "(0::rat) < 2 powi (binade x)" by simp
  ultimately show ?thesis by linarith
qed

lemma fl_mono:
  assumes "x \<le> y"
  shows "fl x \<le> fl y"
proof -
  consider "0 < x" | "x \<le> 0" "0 \<le> y" | "y < 0" by linarith
  then show ?thesis
  proof cases
    case 1
    then show ?thesis using assms by (rule fl_mono_pos)
  next
    case 2
    have "0 \<le> fl (- x)" using 2(1) by (intro fl_nonneg) simp
    then have "fl x \<le> 0" by (simp add: fl_minus)
    moreover have "0 \<le> fl y" using 2(2) by (rule fl_nonneg)
    ultimately show ?thesis by linarith
  next
    case 3
    then have "0 < - y" and "- y \<le> - x" using assms by simp_all
    then have "fl (- y) \<le> fl (- x)" by (rule fl_mono_pos)
    then show ?thesis by (simp add: fl_minus)
  qed
qed

lemma curves_nonneg: "\<forall>x \<in> set (curve_of vt). 0 \<le> x"
  unfolding curve_of_def HOURLY_CURVES_def DEFAULT_CURVE_def
  by (auto split: option.splits if_splits)

lemma curves_length: "length (curve_of vt) = 24"
  unfolding curve_of_def HOURLY_CURVES_def DEFAULT_CURVE_def
  by (auto split: option.splits if_splits)

lemma sum_list_nonneg_int: "\<forall>x \<in> set xs. 0 \<le> x \<Longrightarrow> 0 \<le> sum_list (xs::int list)"
  by (induction xs) auto

lemma base_busyness_nonneg: "0 \<le> base_busyness (curve_of vt) h"
proof -
  have m: "0 \<le> py_round (fl (of_int (sum_list (curve_of vt)) / of_nat (length (curve_of vt))))"
    by (intro py_round_nonneg fl_nonneg) (simp add: sum_list_nonneg_int curves_nonneg)
  have n: "0 \<le> h \<Longrightarrow> h \<le> 23 \<Longrightarrow> 0 \<le> curve_of vt ! nat h" for h
    using curves_nonneg [of vt] curves_length [of vt] by simp
  show ?thesis
    unfolding base_busyness_def using m n by (auto split: option.splits)
qed

text \<open>
  Claim C4. For all inputs \<open>predict_busyness\<close> returns an integer busyness between 0 and
  100, and any call with the same four arguments returns the same triple of busyness, tip
  and venue type: the result is a function of the arguments alone (the source reads only
  its parameters and the module's constant tables), whichever caller invokes it.
\<close>

theorem predict_busyness_range_deterministic:
  "0 \<le> fst (predict_busyness t loc h d)
   \<and> fst (predict_busyness t loc h d) \<le> 100
   \<and> (\<forall>t' loc' h' d'.
        (t', loc', h', d') = (t, loc, h, d)
        \<longrightarrow> predict_busyness t' loc' h' d'
            = predict_busyness t loc h d)"
  unfolding predict_busyness_def Let_def by (simp add: clamp100_range)

theorem predict_busyness_range_deterministic_witness:
  "0 \<le> fst (predict_busyness ''Marina Beach'' None (Some 18) (Some 5))
   \<and> fst (predict_busyness ''Marina Beach'' None (Some 18) (Some 5)) \<le> 100
   \<and> predict_busyness ''Marina Beach'' None (Some 18) (Some 5)
     = (98, (VeryCrowded, Some BeachSunset), ''beach'')"
proof -
  have v: "predict_busyness ''Marina Beach'' None (Some 18) (Some 5)
      = (98, (VeryCrowded, Some BeachSunset), ''beach'')"
    by code_simp
  from predict_busyness_range_deterministic [of "''Marina Beach''" None "Some 18" "Some 5"] v
  show ?thesis by simp
qed

text \<open>
  Claim C6. For every title, location and hour, the busyness predicted for Sunday
  (day of week 6, multiplier 1.20) is at least the busyness predicted for Monday
  (day of week 0, multiplier 0.80), through the float product, the rounding and the
  clamp at 100. Every
  curve entry and every rounded curve mean is non-negative, so the comparison holds at
  every hour, in particular at the hours whose curve entry is positive.
\<close>

theorem predict_busyness_sunday_ge_monday:
  "fst (predict_busyness t loc h (Some 0))
   \<le> fst (predict_busyness t loc h (Some 6))"
proof -
  let ?b = "base_busyness (curve_of (classify_venue t loc)) h"
  have nn: "0 \<le> ?b"
    by (rule base_busyness_nonneg)
  have "fl (80 / 100) \<le> fl (120 / 100)"
    by (rule fl_mono) simp
  then have "(of_int ?b :: rat) * fl (80 / 100) \<le> of_int ?b * fl (120 / 100)"
    using nn by (simp add: mult_left_mono)
  then have "fl (of_int ?b * fl (80 / 100)) \<le> fl (of_int ?b * fl (120 / 100))"
    by (rule fl_mono)
  then have "py_round (fl (of_int ?b * fl (80 / 100)))
             \<le> py_round (fl (of_int ?b * fl (120 / 100)))"
    by (rule py_round_mono)
  then have "apply_day ?b (Some 0) \<le> apply_day ?b (Some 6)"
    by (simp add: apply_day_def DAY_MULTIPLIERS_def)
  then show ?thesis
    unfolding predict_busyness_def Let_def by (simp add: clamp100_mono)
qed

section \<open>Properties of the ranking functions\<close>

lemma py_sort_reverse_descending:
  "sorted_wrt (\<lambda>a b. key a \<ge> key b) (py_sort_reverse key xs)"
proof -
  have "sorted (map key (sort_key key (rev xs)))"
    by (rule sorted_sort_key)
  then have "sorted_wrt (\<lambda>a b. key a \<le> key b) (sort_key key (rev xs))"
    by (simp only: sorted_map)
  then show ?thesis
    unfolding py_sort_reverse_def by (simp only: sorted_wrt_rev)
qed

lemma py_sort_reverse_stable:
  "filter (\<lambda>v. key v = k) (py_sort_reverse key xs) = filter (\<lambda>v. key v = k) xs"
proof -
  have "filter (\<lambda>v. key v = k) (rev (sort_key key (rev xs)))
      = rev (filter (\<lambda>v. key v = k) (sort_key key (rev xs)))"
    by (simp only: rev_filter)
  also have "\<dots> = rev (filter (\<lambda>v. key v = k) (rev xs))"
    by (simp only: sort_key_stable)
  also have "\<dots> = filter (\<lambda>v. key v = k) xs"
    by (simp only: rev_filter rev_rev_ident)
  finally show ?thesis
    unfolding py_sort_reverse_def .
qed

lemma py_sort_reverse_length: "length (py_sort_reverse key xs) = length xs"
  unfolding py_sort_reverse_def by simp

lemma py_sort_reverse_set: "set (py_sort_reverse key xs) = set xs"
  unfolding py_sort_reverse_def by simp

text \<open>
  Claim C8. For every input list, both ranking functions return the scored activities
  in descending order of the overall score, and the sort is stable: for every score
  value, the activities that have this score appear in the result in exactly the order
  in which they were scored from the input (so two activities with equal overall score
  keep their relative input order; nothing but the overall score is compared).
\<close>

theorem rank_sorted_stable:
  "sorted_wrt (\<lambda>a b. venue_score.overall_score a \<ge> venue_score.overall_score b)
     (rank_activities_for_elderly acts)
   \<and> (\<forall>s. filter (\<lambda>v. venue_score.overall_score v = s) (rank_activities_for_elderly acts)
          = filter (\<lambda>v. venue_score.overall_score v = s) (map score_elderly_dict acts))
   \<and> sorted_wrt (\<lambda>a b. child_score.overall_score a \<ge> child_score.overall_score b)
     (rank_activities_for_children order acts)
   \<and> (\<forall>s. filter (\<lambda>v. child_score.overall_score v = s) (rank_activities_for_children order acts)
          = filter (\<lambda>v. child_score.overall_score v = s) (map (score_child_dict order) acts))"
  unfolding rank_activities_for_elderly_def rank_activities_for_children_def Let_def
  by (simp only: py_sort_reverse_descending py_sort_reverse_stable simp_thms)

section \<open>Properties of the crowd-data client\<close>

lemma poll_finished_iff:
  "poll_finished (Inr p)
   \<longleftrightarrow> (\<exists>f. py_get p ''job_finished'' (JBool False) = Inr f \<and> truthy f)"
  by (cases p) (simp_all add: poll_finished_def)

lemma poll_finished_Inl [simp]: "\<not> poll_finished (Inl e)"
  by (simp add: poll_finished_def)

lemma observed_payloads_0 [simp]: "observed_payloads w n 0 = []"
  by (simp add: observed_payloads_def)

lemma observed_payloads_Suc:
  "observed_payloads w n (Suc k)
   = (case w n of Inl e \<Rightarrow> [] | Inr p \<Rightarrow> [p]) @ observed_payloads w (Suc n) k"
proof -
  have "[n..<n + Suc k] = n # [Suc n..<Suc n + k]"
    by (simp add: upt_conv_Cons del: upt_Suc)
  then show ?thesis
    unfolding observed_payloads_def by simp
qed

lemma poll_loop_unfinished_step:
  assumes "\<not> poll_finished (w n)"
  shows "poll_loop w s (Suc k) n pd
         = poll_loop w s k (Suc n) (case w n of Inl e \<Rightarrow> pd | Inr p \<Rightarrow> Some p)"
proof (cases "w n")
  case (Inl e)
  then show ?thesis by simp
next
  case (Inr p)
  with assms have "\<not> poll_finished (Inr p)" by simp
  then have "\<And>f. py_get p ''job_finished'' (JBool False) = Inr f \<Longrightarrow> \<not> truthy f"
    by (simp add: poll_finished_iff)
  with Inr show ?thesis
    by (cases "py_get p ''job_finished'' (JBool False)") simp_all
qed

lemma poll_loop_finished_step:
  assumes "w n = Inr p" and "poll_finished (Inr p)"
  shows "poll_loop w s (Suc k) n pd = (p, Suc n)"
proof -
  from assms(2) obtain f where "py_get p ''job_finished'' (JBool False) = Inr f" and "truthy f"
    by (auto simp add: poll_finished_iff)
  with assms(1) show ?thesis by simp
qed

lemma poll_loop_returns_at_first_finished:
  "i < k \<Longrightarrow> (\<forall>j<i. \<not> poll_finished (w (n + j))) \<Longrightarrow> w (n + i) = Inr p
   \<Longrightarrow> poll_finished (Inr p) \<Longrightarrow> poll_loop w s k n pd = (p, n + i + 1)"
proof (induction k arbitrary: n i pd)
  case 0
  then show ?case by simp
next
  case (Suc k)
  show ?case
  proof (cases i)
    case 0
    with Suc.prems have "w n = Inr p" by simp
    then have "poll_loop w s (Suc k) n pd = (p, Suc n)"
      using Suc.prems(4) by (rule poll_loop_finished_step)
    with 0 show ?thesis by simp
  next
    case (Suc i')
    from Suc.prems(2) Suc have nf: "\<not> poll_finished (w n)"
      by (metis add_0_right zero_less_Suc)
    have "poll_loop w s k (Suc n) (case w n of Inl e \<Rightarrow> pd | Inr p \<Rightarrow> Some p)
          = (p, Suc n + i' + 1)"
    proof (rule Suc.IH)
      show "i' < k" using Suc.prems(1) Suc by simp
      show "\<forall>j<i'. \<not> poll_finished (w (Suc n + j))"
        using Suc.prems(2) Suc by (metis Suc_less_eq add_Suc_shift)
      show "w (Suc n + i') = Inr p" using Suc.prems(3) Suc by simp
      show "poll_finished (Inr p)" by (rule Suc.prems(4))
    qed
    then show ?thesis
      unfolding Suc poll_loop_unfinished_step [where w = w and n = n, OF nf] by simp
  qed
qed

lemma poll_loop_exhausted:
  "(\<forall>j<k. \<not> poll_finished (w (n + j)))
   \<Longrightarrow> poll_loop w s k n pd
       = ((if observed_payloads w n k = []
           then (case pd of Some p \<Rightarrow> p | None \<Rightarrow> s)
           else last (observed_payloads w n k)), n + k)"
proof (induction k arbitrary: n pd)
  case 0
  then show ?case by simp
next
  case (Suc k)
  from Suc.prems have nf: "\<not> poll_finished (w n)"
    by (metis add_0_right zero_less_Suc)
  have rest: "\<forall>j<k. \<not> poll_finished (w (Suc n + j))"
    using Suc.prems by (metis Suc_less_eq add_Suc_shift)
  show ?case
  proof (cases "w n")
    case (Inl e)
    with Suc.IH [OF rest, of pd] show ?thesis
      unfolding poll_loop_unfinished_step [where w = w and n = n, OF nf] observed_payloads_Suc by simp
  next
    case (Inr q)
    with Suc.IH [OF rest, of "Some q"] show ?thesis
      unfolding poll_loop_unfinished_step [where w = w and n = n, OF nf] observed_payloads_Suc by simp
  qed
qed

lemma poll_loop_counter: "snd (poll_loop w s k n pd) \<le> n + k"
proof (induction k arbitrary: n pd)
  case 0
  then show ?case by simp
next
  case (Suc k)
  have a: "snd (poll_loop w s k (Suc n) pd') \<le> Suc (n + k)" for pd'
    using Suc.IH [of "Suc n" pd'] by simp
  show ?case
    by (cases "w n"; simp add: a split: sum.splits)
qed

lemma venue_search_started:
  assumes "w n = Inr (JDict start)"
    and "truthy (dget start ''job_id'' JNull)"
    and "truthy (dget start ''collection_id'' JNull)"
  shows "venue_search w n
         = (Inr (fst (poll_loop w (JDict start) 15 (Suc n) None)),
            snd (poll_loop w (JDict start) 15 (Suc n) None))"
  using assms by (simp add: venue_search_def split: prod.splits)

text \<open>
  Claim C1. Once the search job has been started (the first exchange answers with an
  object carrying a job id and a collection id), the polling loop makes at most 15 polls
  and: (a) at the first poll that reports the finished flag, \<open>venue_search\<close> returns the
  payload of that poll at once, having made no further exchange; polls before it that
  failed or were unfinished do not change this; (b) if none of the 15 polls reports the
  flag, it returns the last payload observed in a poll that succeeded, or the job-start
  payload when no poll succeeded; (c) in every case it returns a payload and not an
  exception.
\<close>

theorem venue_search_poll_loop:
  assumes "w n = Inr (JDict start)"
    and "truthy (dget start ''job_id'' JNull)"
    and "truthy (dget start ''collection_id'' JNull)"
  shows "(\<forall>i p. i < 15 \<and> (\<forall>j<i. \<not> poll_finished (w (Suc n + j)))
             \<and> w (Suc n + i) = Inr p \<and> poll_finished (Inr p)
           \<longrightarrow> venue_search w n = (Inr p, Suc n + i + 1))
       \<and> ((\<forall>j<15. \<not> poll_finished (w (Suc n + j)))
           \<longrightarrow> venue_search w n = (Inr (last_observed w (Suc n) 15 (JDict start)), n + 16))
       \<and> (\<exists>p n'. venue_search w n = (Inr p, n') \<and> n' \<le> n + 16)"
proof (intro conjI allI impI)
  fix i p
  assume "i < 15 \<and> (\<forall>j<i. \<not> poll_finished (w (Suc n + j)))
          \<and> w (Suc n + i) = Inr p \<and> poll_finished (Inr p)"
  then have "poll_loop w (JDict start) 15 (Suc n) None = (p, Suc n + i + 1)"
    by (intro poll_loop_returns_at_first_finished) simp_all
  then show "venue_search w n = (Inr p, Suc n + i + 1)"
    by (simp add: venue_search_started [where w = w and n = n, OF assms])
next
  assume "\<forall>j<15. \<not> poll_finished (w (Suc n + j))"
  then have "poll_loop w (JDict start) 15 (Suc n) None
             = (last_observed w (Suc n) 15 (JDict start), Suc n + 15)"
    by (simp add: poll_loop_exhausted last_observed_def)
  then show "venue_search w n = (Inr (last_observed w (Suc n) 15 (JDict start)), n + 16)"
    by (simp add: venue_search_started [where w = w and n = n, OF assms])
next
  have "snd (poll_loop w (JDict start) 15 (Suc n) None) \<le> Suc n + 15"
    by (rule poll_loop_counter)
  then show "\<exists>p n'. venue_search w n = (Inr p, n') \<and> n' \<le> n + 16"
    by (simp add: venue_search_started [where w = w and n = n, OF assms])
qed

theorem venue_search_poll_loop_witness:
  "venue_search world_finishing 0 = (Inr example_done, 4)
   \<and> venue_search world_stalling 0 = (Inr example_partial, 16)"
proof -
  have s: "world_finishing 0 = Inr (JDict [(''job_id'', JStr ''j1''), (''collection_id'', JStr ''c1'')])"
    "world_stalling 0 = Inr (JDict [(''job_id'', JStr ''j1''), (''collection_id'', JStr ''c1'')])"
    by (simp_all add: world_finishing_def world_stalling_def example_start_def)
  have j: "truthy (dget [(''job_id'', JStr ''j1''), (''collection_id'', JStr ''c1'')] ''job_id'' JNull)"
    "truthy (dget [(''job_id'', JStr ''j1''), (''collection_id'', JStr ''c1'')] ''collection_id'' JNull)"
    by (simp_all add: dget_def)
  have a: "2 < (15::nat) \<and> (\<forall>j<2. \<not> poll_finished (world_finishing (Suc 0 + j)))
           \<and> world_finishing (Suc 0 + 2) = Inr example_done \<and> poll_finished (Inr example_done)"
    by (simp add: world_finishing_def poll_finished_def example_done_def example_partial_def
        dget_def less_Suc_eq numeral_2_eq_2)
  have b: "\<forall>j<15. \<not> poll_finished (world_stalling (Suc 0 + j))"
    by (simp add: world_stalling_def poll_finished_def example_partial_def dget_def)
  have c: "last_observed world_stalling (Suc 0) 15 (JDict [(''job_id'', JStr ''j1''), (''collection_id'', JStr ''c1'')])
           = example_partial"
    by (simp add: last_observed_def observed_payloads_def world_stalling_def upt_conv_Cons)
  have "venue_search world_finishing 0 = (Inr example_done, Suc 0 + 2 + 1)"
    using venue_search_poll_loop [where w = world_finishing and n = 0, OF s(1) j] a
    by blast
  then have "venue_search world_finishing 0 = (Inr example_done, 4)"
    by simp
  moreover from venue_search_poll_loop [where w = world_stalling and n = 0, OF s(2) j] b c
  have "venue_search world_stalling 0 = (Inr example_partial, 16)"
    by simp
  ultimately show ?thesis by simp
qed

section \<open>Properties of the crowd router\<close>

lemma first_numeric_field_dict:
  "first_numeric_field (JDict v) [k1, k2, k3]
   = Inr (case filter is_number (map (\<lambda>k. dget v k JNull) [k1, k2, k3]) of
            [] \<Rightarrow> None
          | x # xs \<Rightarrow> Some (py_float (num_of x)))"
  by simp

lemma week_positive_hours_no_rows:
  "\<forall>day \<in> set days. (case day of JList hs \<Rightarrow> False | _ \<Rightarrow> True)
   \<Longrightarrow> week_positive_hours days = []"
  by (induction days) (auto simp add: week_positive_hours_def split: json.splits)

text \<open>
  The block for the planned hour: whenever it does not raise, its result is the first
  strategy on the list \<open>day_raw\<close>; and it does not raise when \<open>day_raw\<close> is a list or
  falsy.
\<close>

lemma hour_block_value:
  assumes "(case d of
              None \<Rightarrow> Inr None
            | Some d' \<Rightarrow>
                bind_exn (day_raw_cell (JDict a) h) (\<lambda>cell.
                  case cell of
                    None \<Rightarrow> Inr None
                  | Some val \<Rightarrow>
                      if is_number val \<and> num_val val \<ge> 0
                      then Inr (Some (py_float (num_of val)))
                      else Inr None)) = Inr x"
  shows "x = strategy_hour_cell (list_or_empty (dget a ''day_raw'' (JList []))) d h"
proof (cases d)
  case None
  with assms show ?thesis by (simp add: strategy_hour_cell_def)
next
  case (Some d')
  show ?thesis
  proof (cases h)
    case None
    with assms Some show ?thesis
      by (simp add: strategy_hour_cell_def day_raw_cell_def bind_exn_def)
  next
    case h: (Some h')
    show ?thesis
    proof (cases "dget a ''day_raw'' (JList [])")
      case (JList xs)
      with assms Some h show ?thesis
        by (auto simp add: strategy_hour_cell_def day_raw_cell_def bind_exn_def list_or_empty_def
            split: if_splits)
    next
      case (JStr str)
      with assms Some h show ?thesis
        by (auto simp add: strategy_hour_cell_def day_raw_cell_def bind_exn_def list_or_empty_def
            split: if_splits)
    next
      case (JDict kvs)
      with assms Some h show ?thesis
        by (auto simp add: strategy_hour_cell_def day_raw_cell_def bind_exn_def list_or_empty_def
            split: if_splits)
    next
      case JNull
      with assms Some h show ?thesis
        by (auto simp add: strategy_hour_cell_def day_raw_cell_def bind_exn_def list_or_empty_def
            split: if_splits)
    next
      case (JBool b)
      with assms Some h show ?thesis
        by (auto simp add: strategy_hour_cell_def day_raw_cell_def bind_exn_def list_or_empty_def
            split: if_splits)
    next
      case (JInt i)
      with assms Some h show ?thesis
        by (auto simp add: strategy_hour_cell_def day_raw_cell_def bind_exn_def list_or_empty_def
            split: if_splits)
    next
      case (JFloat r)
      with assms Some h show ?thesis
        by (auto simp add: strategy_hour_cell_def day_raw_cell_def bind_exn_def list_or_empty_def
            split: if_splits)
    qed
  qed
qed

lemma hour_block_returns:
  assumes "list_or_falsy (dget a ''day_raw'' (JList []))"
  shows "\<exists>x. (case d of
              None \<Rightarrow> Inr None
            | Some d' \<Rightarrow>
                bind_exn (day_raw_cell (JDict a) h) (\<lambda>cell.
                  case cell of
                    None \<Rightarrow> Inr None
                  | Some val \<Rightarrow>
                      if is_number val \<and> num_val val \<ge> 0
                      then Inr (Some (py_float (num_of val)))
                      else Inr None)) = Inr x"
  using assms
  by (cases d; cases h; cases "dget a ''day_raw'' (JList [])")
     (auto simp add: day_raw_cell_def bind_exn_def list_or_falsy_def)

lemma week_mean_value:
  assumes "week_mean (JDict a) = Inr m"
  shows "map_option (py_round_float 1) m
         = strategy_week_mean (list_or_empty (dget a ''week_raw'' (JList [])))"
proof (cases "dget a ''week_raw'' (JList [])")
  case (JList xs)
  with assms show ?thesis
    by (cases xs)
       (auto simp add: week_mean_def bind_exn_def strategy_week_mean_def list_or_empty_def
          week_positive_hours_def Let_def split: if_splits)
next
  case (JStr str)
  have "week_positive_hours (map (\<lambda>c. JStr [c]) str) = []"
    by (rule week_positive_hours_no_rows) auto
  with assms JStr show ?thesis
    by (auto simp add: week_mean_def bind_exn_def strategy_week_mean_def list_or_empty_def
        week_positive_hours_def Let_def split: if_splits)
next
  case (JDict kvs)
  have "week_positive_hours (map (\<lambda>kv. JStr (fst kv)) kvs) = []"
    by (rule week_positive_hours_no_rows) auto
  with assms JDict show ?thesis
    by (auto simp add: week_mean_def bind_exn_def strategy_week_mean_def list_or_empty_def
        week_positive_hours_def Let_def split: if_splits)
next
  case JNull
  with assms show ?thesis
    by (auto simp add: week_mean_def bind_exn_def strategy_week_mean_def list_or_empty_def
        week_positive_hours_def Let_def split: if_splits)
next
  case (JBool b)
  with assms show ?thesis
    by (auto simp add: week_mean_def bind_exn_def strategy_week_mean_def list_or_empty_def
        week_positive_hours_def Let_def split: if_splits)
next
  case (JInt i)
  with assms show ?thesis
    by (auto simp add: week_mean_def bind_exn_def strategy_week_mean_def list_or_empty_def
        week_positive_hours_def Let_def split: if_splits)
next
  case (JFloat r)
  with assms show ?thesis
    by (auto simp add: week_mean_def bind_exn_def strategy_week_mean_def list_or_empty_def
        week_positive_hours_def Let_def split: if_splits)
qed

lemma week_mean_returns:
  assumes "list_or_falsy (dget a ''week_raw'' (JList []))"
  shows "\<exists>m. week_mean (JDict a) = Inr m"
  using assms
  by (cases "dget a ''week_raw'' (JList [])")
     (auto simp add: week_mean_def bind_exn_def list_or_falsy_def Let_def)

lemma bind_exn_Inr: "bind_exn (Inr x) f = f x"
  by (simp add: bind_exn_def)

lemma first_success_3:
  "first_success [r1, r2, r3]
   = (case r1 of Some x \<Rightarrow> Some x
      | None \<Rightarrow> (case r2 of Some x \<Rightarrow> Some x | None \<Rightarrow> r3))"
  by (cases r1; cases r2; cases r3) (simp_all add: first_success_def)

lemma extract_busyness_not_object:
  "(case venue of JDict v \<Rightarrow> False | _ \<Rightarrow> True)
   \<Longrightarrow> extract_busyness_from_venue venue d h = Inl AttributeError"
  by (cases venue) (simp_all add: extract_busyness_from_venue_def bind_exn_def)

lemma extract_busyness_object:
  "extract_busyness_from_venue (JDict v) d h
   = bind_exn (py_get (forecast_object v) ''analysis'' (JDict [])) (\<lambda>analysis.
     bind_exn (case d of
                 None \<Rightarrow> Inr None
               | Some d' \<Rightarrow>
                   bind_exn (day_raw_cell analysis h) (\<lambda>cell.
                     case cell of
                       None \<Rightarrow> Inr None
                     | Some val \<Rightarrow>
                         if is_number val \<and> num_val val \<ge> 0
                         then Inr (Some (py_float (num_of val)))
                         else Inr None)) (\<lambda>at_hour.
     case at_hour of
       Some x \<Rightarrow> Inr (Some x)
     | None \<Rightarrow>
         bind_exn (week_mean analysis) (\<lambda>mean.
           case mean of
             Some m \<Rightarrow> Inr (Some (py_round_float 1 m))
           | None \<Rightarrow> Inr (strategy_direct_field v))))"
proof -
  have direct: "first_numeric_field (JDict v)
                  [''venue_forecasted_busyness'', ''busyness'', ''busy_pct'']
                = Inr (strategy_direct_field v)"
    unfolding strategy_direct_field_def by (rule first_numeric_field_dict)
  define rest where "rest = (\<lambda>analysis.
     bind_exn (case d of
                 None \<Rightarrow> Inr None
               | Some d' \<Rightarrow>
                   bind_exn (day_raw_cell analysis h) (\<lambda>cell.
                     case cell of
                       None \<Rightarrow> Inr None
                     | Some val \<Rightarrow>
                         if is_number val \<and> num_val val \<ge> 0
                         then Inr (Some (py_float (num_of val)))
                         else Inr None)) (\<lambda>at_hour.
     case at_hour of
       Some x \<Rightarrow> Inr (Some x)
     | None \<Rightarrow>
         bind_exn (week_mean analysis) (\<lambda>mean.
           case mean of
             Some m \<Rightarrow> Inr (Some (py_round_float 1 m))
           | None \<Rightarrow> Inr (strategy_direct_field v))))"
  have "extract_busyness_from_venue (JDict v) d h
        = bind_exn (py_get (JDict v) ''venue_foot_traffic_forecast'' JNull) (\<lambda>f1.
          bind_exn (if truthy f1 then Inr f1 else py_get (JDict v) ''forecast'' JNull) (\<lambda>f2.
          let ft = (if truthy f2 then f2 else JDict []) in
          bind_exn (py_get ft ''analysis'' (JDict [])) rest))"
    unfolding extract_busyness_from_venue_def rest_def direct by (rule refl)
  also have "\<dots> = bind_exn (py_get (forecast_object v) ''analysis'' (JDict [])) rest"
    by (simp add: bind_exn_Inr Let_def forecast_object_def)
  finally show ?thesis
    unfolding rest_def .
qed

lemma extract_busyness_value:
  assumes "extract_busyness_from_venue (JDict v) d h = Inr r"
  shows "r = three_strategies v d h"
proof -
  from assms obtain an where an: "py_get (forecast_object v) ''analysis'' (JDict []) = Inr an"
    unfolding extract_busyness_object
    by (cases "py_get (forecast_object v) ''analysis'' (JDict [])") (simp_all add: bind_exn_def)
  then obtain ft where ft: "forecast_object v = JDict ft" and an_eq: "an = dget ft ''analysis'' (JDict [])"
    by (cases "forecast_object v") simp_all
  let ?block = "case d of
                  None \<Rightarrow> Inr None
                | Some d' \<Rightarrow>
                    bind_exn (day_raw_cell an h) (\<lambda>cell.
                      case cell of
                        None \<Rightarrow> Inr None
                      | Some val \<Rightarrow>
                          if is_number val \<and> num_val val \<ge> 0
                          then Inr (Some (py_float (num_of val)))
                          else Inr None)"
  from assms an obtain x where x: "?block = Inr x"
    unfolding extract_busyness_object
    by (cases ?block) (simp_all add: bind_exn_def)
  have rest: "(case x of
                 Some y \<Rightarrow> Inr (Some y)
               | None \<Rightarrow>
                   bind_exn (week_mean an) (\<lambda>mean.
                     case mean of
                       Some m \<Rightarrow> Inr (Some (py_round_float 1 m))
                     | None \<Rightarrow> Inr (strategy_direct_field v))) = Inr r"
    using assms [unfolded extract_busyness_object an bind_exn_Inr x] .
  obtain a where a: "an = JDict a"
  proof (cases an)
    case (JDict a)
    then show ?thesis by (rule that)
  next
    case JNull
    with x rest show ?thesis
      by (cases d; cases x) (simp_all add: day_raw_cell_def week_mean_def bind_exn_def)
  next
    case (JBool b)
    with x rest show ?thesis
      by (cases d; cases x) (simp_all add: day_raw_cell_def week_mean_def bind_exn_def)
  next
    case (JInt i)
    with x rest show ?thesis
      by (cases d; cases x) (simp_all add: day_raw_cell_def week_mean_def bind_exn_def)
  next
    case (JFloat q)
    with x rest show ?thesis
      by (cases d; cases x) (simp_all add: day_raw_cell_def week_mean_def bind_exn_def)
  next
    case (JStr str)
    with x rest show ?thesis
      by (cases d; cases x) (simp_all add: day_raw_cell_def week_mean_def bind_exn_def)
  next
    case (JList xs)
    with x rest show ?thesis
      by (cases d; cases x) (simp_all add: day_raw_cell_def week_mean_def bind_exn_def)
  qed
  have an2: "dget ft ''analysis'' (JDict []) = JDict a"
    using an_eq a by simp
  have dr: "day_raw_of v = dget a ''day_raw'' (JList [])"
    and wr: "week_raw_of v = dget a ''week_raw'' (JList [])"
    by (simp_all add: day_raw_of_def week_raw_of_def analysis_of_def ft an2)
  have x_eq: "x = strategy_hour_cell (list_or_empty (day_raw_of v)) d h"
    unfolding dr using x [unfolded a] by (rule hour_block_value)
  show ?thesis
  proof (cases x)
    case (Some y)
    with rest have r: "r = Some y" by simp
    from x_eq Some have "strategy_hour_cell (list_or_empty (day_raw_of v)) d h = Some y"
      by simp
    then show ?thesis
      by (simp add: three_strategies_def first_success_3 r)
  next
    case None
    with rest obtain m where m: "week_mean (JDict a) = Inr m"
      and r: "r = (case m of Some m' \<Rightarrow> Some (py_round_float 1 m') | None \<Rightarrow> strategy_direct_field v)"
      unfolding a
      by (cases "week_mean (JDict a)") (auto simp add: bind_exn_def split: option.splits)
    from x_eq None have s1: "strategy_hour_cell (list_or_empty (day_raw_of v)) d h = None"
      by simp
    from m have "map_option (py_round_float 1) m = strategy_week_mean (list_or_empty (week_raw_of v))"
      unfolding wr by (rule week_mean_value)
    then have s2: "strategy_week_mean (list_or_empty (week_raw_of v)) = map_option (py_round_float 1) m"
      by simp
    show ?thesis
      by (cases m) (simp_all add: three_strategies_def first_success_3 s1 s2 r)
  qed
qed

lemma extract_busyness_returns:
  assumes "well_formed_venue v"
  shows "\<exists>r. extract_busyness_from_venue (JDict v) d h = Inr r"
proof -
  from assms obtain a where a: "analysis_of v = JDict a"
    by (cases "analysis_of v") (simp_all add: well_formed_venue_def)
  then obtain ft where ft: "forecast_object v = JDict ft"
    and an: "dget ft ''analysis'' (JDict []) = JDict a"
    by (cases "forecast_object v") (simp_all add: analysis_of_def)
  from assms a have dr: "list_or_falsy (dget a ''day_raw'' (JList []))"
    and wr: "list_or_falsy (dget a ''week_raw'' (JList []))"
    by (simp_all add: well_formed_venue_def day_raw_of_def week_raw_of_def)
  from hour_block_returns [OF dr, where d = d and h = h] obtain x where
    x: "(case d of
           None \<Rightarrow> Inr None
         | Some d' \<Rightarrow>
             bind_exn (day_raw_cell (JDict a) h) (\<lambda>cell.
               case cell of
                 None \<Rightarrow> Inr None
               | Some val \<Rightarrow>
                   if is_number val \<and> num_val val \<ge> 0
                   then Inr (Some (py_float (num_of val)))
                   else Inr None)) = Inr x" ..
  from week_mean_returns [OF wr] obtain m where m: "week_mean (JDict a) = Inr m" ..
  have an': "py_get (forecast_object v) ''analysis'' (JDict []) = Inr (JDict a)"
    using ft an by simp
  show ?thesis
    unfolding extract_busyness_object an' bind_exn_Inr x m
    by (cases x; cases m) simp_all
qed




section \<open>Properties of the itinerary handlers\<close>

lemma itinerary_score_described:
  "itinerary_score scores = Inr (described_itinerary_score scores)"
  by (simp add: itinerary_score_def py_mean_checked_def described_itinerary_score_def)

lemma typed_activity_unavailable:
  "\<exists>d. typed_activity (fst (enrich_activity False w n a)) = Inr d"
  by (cases "elderly_activity.description a")
     (simp_all add: enrich_activity_def typed_activity_def Let_def)

lemma enrich_activity_unavailable: "snd (enrich_activity False w n a) = n"
  by (simp add: enrich_activity_def Let_def)

lemma enrich_loop_unavailable:
  "\<exists>rs. enrich_loop False w n acts = (rs, n) \<and> (\<exists>ds. typed_activities rs = Inr ds)"
proof (induction acts)
  case Nil
  then show ?case by simp
next
  case (Cons a acts)
  then obtain rs ds where rs: "enrich_loop False w n acts = (rs, n)"
    and ds: "typed_activities rs = Inr ds" by blast
  obtain d where d: "typed_activity (fst (enrich_activity False w n a)) = Inr d"
    using typed_activity_unavailable by blast
  have e: "enrich_activity False w n a = (fst (enrich_activity False w n a), n)"
    using enrich_activity_unavailable [of w n a] by (simp add: prod_eq_iff)
  have "enrich_loop False w n (a # acts) = (fst (enrich_activity False w n a) # rs, n)"
    using rs by (subst enrich_loop.simps, subst e) simp
  moreover have "typed_activities (fst (enrich_activity False w n a) # rs) = Inr (d # ds)"
    using d ds by simp
  ultimately show ?case by blast
qed

lemma optimize_itinerary_score:
  assumes "optimize_itinerary bt w n req = (Inr resp, n')"
  shows "overall_elderly_score resp
         = described_itinerary_score
             (map venue_score.overall_score (elderly_optimize_response.scored_activities resp))"
  using assms
  by (auto simp add: optimize_itinerary_def Let_def itinerary_score_described
      split: prod.splits sum.splits)

lemma optimize_itinerary_unavailable:
  assumes "api_available_of bt \<noteq> Some True"
  shows "\<exists>resp. optimize_itinerary bt w n req = (Inr resp, n)"
proof -
  obtain rs ds where rs: "enrich_loop False w n (elderly_optimize_request.activities req) = (rs, n)"
    and ds: "typed_activities rs = Inr ds"
    using enrich_loop_unavailable by blast
  show ?thesis
    using assms rs ds
    by (simp add: optimize_itinerary_def Let_def rank_raw_activities_def itinerary_score_described)
qed

lemma optimize_itinerary_empty:
  assumes "elderly_optimize_request.activities req = []"
  shows "\<exists>resp. optimize_itinerary bt w n req = (Inr resp, n) \<and> overall_elderly_score resp = 0"
  using assms
  by (simp add: optimize_itinerary_def Let_def rank_raw_activities_def itinerary_score_def
      rank_activities_for_elderly_def py_sort_reverse_def)



section \<open>Properties of the configuration test and of the degraded answers\<close>

lemma analyze_loop_unavailable:
  "analyze_loop False w n acts
   = (map (\<lambda>a. predicted_entry a (parse_hour (itinerary_activity.start_time a)) (Some False)) acts,
      n)"
  by (induction acts) (simp_all add: Let_def)

lemma enrich_loop_predicted:
  "enrich_loop False w n acts = (rs, n')
   \<Longrightarrow> n' = n
       \<and> map raw_busyness_pct rs
         = map (\<lambda>a. JInt (fst (predict_busyness (elderly_activity.title a)
                                 (elderly_activity.location a)
                                 (parse_hour (elderly_activity.start_time a))
                                 (elderly_activity.day_of_week a)))) acts"
proof (induction acts arbitrary: rs n')
  case Nil
  then show ?case by simp
next
  case (Cons a acts)
  obtain rs0 n0 where l: "enrich_loop False w n acts = (rs0, n0)"
    by (cases "enrich_loop False w n acts")
  from Cons.IH [OF l] have n0: "n0 = n"
    and m: "map raw_busyness_pct rs0
            = map (\<lambda>a. JInt (fst (predict_busyness (elderly_activity.title a)
                                    (elderly_activity.location a)
                                    (parse_hour (elderly_activity.start_time a))
                                    (elderly_activity.day_of_week a)))) acts"
    by simp_all
  have e: "enrich_activity False w n a = (fst (enrich_activity False w n a), n)"
    using enrich_activity_unavailable [of w n a] by (simp add: prod_eq_iff)
  have b: "raw_busyness_pct (fst (enrich_activity False w n a))
           = JInt (fst (predict_busyness (elderly_activity.title a)
                          (elderly_activity.location a)
                          (parse_hour (elderly_activity.start_time a))
                          (elderly_activity.day_of_week a)))"
    by (simp add: enrich_activity_def Let_def)
  have "enrich_loop False w n (a # acts) = (fst (enrich_activity False w n a) # rs0, n)"
    using l n0 by (subst enrich_loop.simps, subst e) simp
  with Cons.prems have "rs = fst (enrich_activity False w n a) # rs0" and "n' = n"
    by simp_all
  with m b show ?case by simp
qed




section \<open>Properties of the error behaviour of the handlers\<close>

lemma entry_for_predicted:
  "entry_for True a (predicted_entry a (parse_hour (itinerary_activity.start_time a)) flag)"
  by (simp add: entry_for_def predicted_entry_def Let_def split: prod.splits)

lemma entry_for_predicted_found:
  "entry_for True a
     ((predicted_entry a (parse_hour (itinerary_activity.start_time a)) flag)
        \<lparr>venue_name := vname, venue_id := vid, venue_info := info\<rparr>)"
  by (simp add: entry_for_def predicted_entry_def Let_def split: prod.splits)

lemma entry_for_unavailable:
  "entry_for False a (predicted_entry a (parse_hour (itinerary_activity.start_time a)) (Some False))"
  by (simp add: entry_for_def predicted_entry_def Let_def split: prod.splits)

lemma entry_for_measured:
  "analysis_entry.activity e = itinerary_activity.title a \<Longrightarrow> \<not> analysis_entry.is_predicted e
   \<Longrightarrow> entry_for True a e"
  by (simp add: entry_for_def Let_def)

lemma lookup_entry_for:
  assumes "lookup_entry w n a (parse_hour (itinerary_activity.start_time a)) = (Inr e, n')"
  shows "entry_for True a e"
proof -
  let ?h = "parse_hour (itinerary_activity.start_time a)"
  from assms have
    "e = predicted_entry a ?h None
     \<or> (\<exists>vname vid info.
           e = (predicted_entry a ?h None)
                 \<lparr>venue_name := vname, venue_id := vid, venue_info := info\<rparr>)
     \<or> (analysis_entry.activity e = itinerary_activity.title a
         \<and> \<not> analysis_entry.is_predicted e)"
    unfolding lookup_entry_def Let_def
    by (auto split: prod.splits sum.splits list.splits if_splits)
  then show ?thesis
    using entry_for_predicted entry_for_predicted_found entry_for_measured by blast
qed

lemma analyze_entries_unavailable:
  "list_all2 (entry_for False) acts
     (map (\<lambda>a. predicted_entry a (parse_hour (itinerary_activity.start_time a)) (Some False))
        acts)"
  by (induction acts) (simp_all add: entry_for_unavailable)

lemma analyze_loop_entries:
  "analyze_loop available w n acts = (es, n') \<Longrightarrow> list_all2 (entry_for available) acts es"
proof (induction acts arbitrary: n es n')
  case Nil
  then show ?case by simp
next
  case (Cons a acts)
  let ?h = "parse_hour (itinerary_activity.start_time a)"
  show ?case
  proof (cases available)
    case False
    with Cons.prems have
      "es = map (\<lambda>a. predicted_entry a (parse_hour (itinerary_activity.start_time a))
                       (Some False)) (a # acts)"
      by (simp add: analyze_loop_unavailable)
    then show ?thesis
      using analyze_entries_unavailable [of "a # acts"] False by simp
  next
    case True
    obtain result n1 where l: "lookup_entry w n a ?h = (result, n1)"
      by (cases "lookup_entry w n a ?h")
    obtain es0 n0 where r: "analyze_loop available w n1 acts = (es0, n0)"
      by (cases "analyze_loop available w n1 acts")
    from Cons.IH [OF r] have rest: "list_all2 (entry_for available) acts es0" .
    have first: "entry_for True a (case result of
                                     Inl x \<Rightarrow> predicted_entry a ?h None
                                   | Inr entry \<Rightarrow> entry)"
    proof (cases result)
      case (Inl x)
      then show ?thesis by (simp add: entry_for_predicted)
    next
      case (Inr entry)
      with l show ?thesis by (simp add: lookup_entry_for)
    qed
    from Cons.prems True l r
    have "es = (case result of Inl x \<Rightarrow> predicted_entry a ?h None | Inr entry \<Rightarrow> entry) # es0"
      by (simp add: Let_def)
    with first rest True show ?thesis by simp
  qed
qed

lemma venue_search_all_failing:
  assumes "\<forall>i. \<exists>e. w i = Inl e"
  shows "\<exists>e. venue_search w n = (Inl e, Suc n)"
proof -
  from assms obtain e where "w n = Inl e" by blast
  then show ?thesis by (simp add: venue_search_def)
qed

lemma search_types_loop_all_failing:
  assumes "\<forall>i. \<exists>e. w i = Inl e"
  shows "search_types_loop w n ts all_venues = (all_venues, n + length ts)"
proof (induction ts arbitrary: n)
  case Nil
  then show ?case by simp
next
  case (Cons t ts)
  obtain e where "venue_search w n = (Inl e, Suc n)"
    using venue_search_all_failing [OF assms] by blast
  then show ?case
    using Cons.IH [of "Suc n"] by simp
qed




end
